theory Spec2Isabelle
  imports Main "HOL-Library.Char_ord"
begin

section \<open>Strings and characters\<close>

text \<open>
  The parser of \<^verbatim>\<open>natural-language-parser.ts\<close> works on JavaScript strings. A string is
  modelled as a list of 8-bit characters, read as the code units U+0000 to U+00FF; every
  character that the parser's patterns mention is ASCII.
\<close>

definition is_digit :: "char \<Rightarrow> bool" where
  "is_digit c = (CHR ''0'' \<le> c \<and> c \<le> CHR ''9'')"

definition is_lower :: "char \<Rightarrow> bool" where
  "is_lower c = (CHR ''a'' \<le> c \<and> c \<le> CHR ''z'')"

definition is_upper :: "char \<Rightarrow> bool" where
  "is_upper c = (CHR ''A'' \<le> c \<and> c \<le> CHR ''Z'')"

text \<open>White space and line terminators (\<^verbatim>\<open>\s\<close>, and what \<^verbatim>\<open>trim\<close> removes): tab, line feed,
  vertical tab, form feed, carriage return, space and the no-break space.\<close>

definition is_space :: "char \<Rightarrow> bool" where
  "is_space c = (of_char c \<in> set [9, 10, 11, 12, 13, 32, 160 :: nat])"

text \<open>The characters of \<^verbatim>\<open>\w\<close>, which decide the word boundary \<^verbatim>\<open>\b\<close>.\<close>

definition is_word_char :: "char \<Rightarrow> bool" where
  "is_word_char c = (is_lower c \<or> is_upper c \<or> is_digit c \<or> c = CHR ''_'')"

definition ascii_upper :: "char \<Rightarrow> char" where
  "ascii_upper c = (if is_lower c then char_of (of_char c - (32::nat)) else c)"

definition ascii_lower :: "char \<Rightarrow> char" where
  "ascii_lower c = (if is_upper c then char_of (of_char c + (32::nat)) else c)"

text \<open>\<^verbatim>\<open>String.prototype.toLowerCase\<close> on the code units below 256: the ASCII capitals and the
  Latin-1 capitals U+00C0 to U+00DE (the multiplication sign U+00D7 apart) move up by 32.\<close>

definition lower_char :: "char \<Rightarrow> char" where
  "lower_char c =
     (let n = (of_char c :: nat)
      in if is_upper c \<or> (192 \<le> n \<and> n \<le> 222 \<and> n \<noteq> 215) then char_of (n + 32) else c)"

definition toLowerCase :: "string \<Rightarrow> string" where
  "toLowerCase s = map lower_char s"

definition trim :: "string \<Rightarrow> string" where
  "trim s = rev (dropWhile is_space (rev (dropWhile is_space s)))"

text \<open>\<^verbatim>\<open>parseInt(s, 10)\<close> on a string of decimal digits.\<close>

definition digit_val :: "char \<Rightarrow> nat" where
  "digit_val c = of_char c - of_char (CHR ''0'')"

definition parseInt :: "string \<Rightarrow> nat" where
  "parseInt s = foldl (\<lambda>n c. 10 * n + digit_val c) 0 (takeWhile is_digit s)"

text \<open>\<^verbatim>\<open>String(n)\<close> for a natural number and \<^verbatim>\<open>padStart(2, '0')\<close>.\<close>

definition digit_char :: "nat \<Rightarrow> char" where
  "digit_char n = char_of (of_char (CHR ''0'') + n)"

fun string_of_nat :: "nat \<Rightarrow> string" where
  "string_of_nat n =
     (if n < 10 then [digit_char n] else string_of_nat (n div 10) @ [digit_char (n mod 10)])"

declare string_of_nat.simps [simp del]

definition padStart2 :: "string \<Rightarrow> string" where
  "padStart2 s = replicate (2 - length s) (CHR ''0'') @ s"

section \<open>Regular expressions\<close>

text \<open>
  The patterns of the parser use literals, character classes, alternation, capturing
  groups, the greedy quantifiers \<^verbatim>\<open>?\<close>, \<^verbatim>\<open>*\<close>, \<^verbatim>\<open>+\<close> and \<^verbatim>\<open>{m,n}\<close>, the word boundary and the
  anchors. The unbounded quantifiers are applied to character classes only, and \<^verbatim>\<open>?\<close> to
  groups and single characters, which is what \<open>Many\<close> and \<open>Opt\<close> provide.
\<close>

datatype cset = Single char | Range char char | Digit | Space

datatype regex =
    Eps
  | Chars string
  | OneOf "cset list"
  | Seq regex regex
  | Or regex regex
  | Opt regex
  | Many nat "nat option" "cset list"
  | Grp nat regex
  | WordB
  | Bol
  | Eol

fun seqs :: "regex list \<Rightarrow> regex" where
  "seqs [] = Eps"
| "seqs [r] = r"
| "seqs (r # rs) = Seq r (seqs rs)"

fun alts :: "string list \<Rightarrow> regex" where
  "alts [] = Eps"
| "alts [w] = Chars w"
| "alts (w # ws) = Or (Chars w) (alts ws)"

fun in_cset :: "cset \<Rightarrow> char \<Rightarrow> bool" where
  "in_cset (Single a) c = (c = a)"
| "in_cset (Range lo hi) c = (lo \<le> c \<and> c \<le> hi)"
| "in_cset Digit c = is_digit c"
| "in_cset Space c = is_space c"

text \<open>
  With the flag \<^verbatim>\<open>i\<close> two characters match when they canonicalize to the same character.
  The patterns hold ASCII characters only, and no character outside ASCII canonicalizes
  into ASCII, so comparing modulo ASCII case is exact here.
\<close>

definition chr_eq :: "bool \<Rightarrow> char \<Rightarrow> char \<Rightarrow> bool" where
  "chr_eq icase a c = (if icase then ascii_upper a = ascii_upper c else a = c)"

definition cls_match :: "bool \<Rightarrow> cset list \<Rightarrow> char \<Rightarrow> bool" where
  "cls_match icase cs c =
     list_ex (\<lambda>k. in_cset k c \<or> (icase \<and> (in_cset k (ascii_upper c) \<or> in_cset k (ascii_lower c)))) cs"

text \<open>
  A matcher state: the character before the current position (\<open>None\<close> at the start of
  the input), the rest of the input, and the captures made so far, newest first.
\<close>

type_synonym captures = "(nat \<times> string) list"
type_synonym mstate = "char option \<times> string \<times> captures"

fun advance :: "nat \<Rightarrow> mstate \<Rightarrow> mstate" where
  "advance 0 st = st"
| "advance (Suc n) (p, [], c) = (p, [], c)"
| "advance (Suc n) (p, x # xs, c) = advance n (Some x, xs, c)"

fun lit_match :: "bool \<Rightarrow> string \<Rightarrow> mstate \<Rightarrow> mstate list" where
  "lit_match icase [] st = [st]"
| "lit_match icase (a # as) (p, [], c) = []"
| "lit_match icase (a # as) (p, x # xs, c) =
     (if chr_eq icase a x then lit_match icase as (Some x, xs, c) else [])"

definition at_word_boundary :: "char option \<Rightarrow> string \<Rightarrow> bool" where
  "at_word_boundary p s =
     ((case p of None \<Rightarrow> False | Some a \<Rightarrow> is_word_char a)
      \<noteq> (case s of [] \<Rightarrow> False | x # _ \<Rightarrow> is_word_char x))"

text \<open>
  \<open>rmatch icase r st\<close> lists the states in which a match of \<open>r\<close> that starts in \<open>st\<close> can
  end, in the order in which a backtracking matcher tries them: the left alternative
  before the right one, the longer repetition before the shorter one, the optional part
  taken before it is skipped.
\<close>

fun rmatch :: "bool \<Rightarrow> regex \<Rightarrow> mstate \<Rightarrow> mstate list" where
  "rmatch icase Eps st = [st]"
| "rmatch icase (Chars w) st = lit_match icase w st"
| "rmatch icase (OneOf cs) (p, s, c) =
     (case s of [] \<Rightarrow> [] | x # xs \<Rightarrow> if cls_match icase cs x then [(Some x, xs, c)] else [])"
| "rmatch icase (Seq r1 r2) st = concat (map (rmatch icase r2) (rmatch icase r1 st))"
| "rmatch icase (Or r1 r2) st = rmatch icase r1 st @ rmatch icase r2 st"
| "rmatch icase (Opt r) st = rmatch icase r st @ [st]"
| "rmatch icase (Many lo hi cs) (p, s, c) =
     (let run = length (takeWhile (cls_match icase cs) s);
          k = (case hi of None \<Rightarrow> run | Some h \<Rightarrow> min h run)
      in map (\<lambda>j. advance j (p, s, c)) (rev [lo ..< Suc k]))"
| "rmatch icase (Grp n r) (p, s, c) =
     map (\<lambda>(p', s', c'). (p', s', (n, take (length s - length s') s) # c'))
         (rmatch icase r (p, s, c))"
| "rmatch icase WordB (p, s, c) = (if at_word_boundary p s then [(p, s, c)] else [])"
| "rmatch icase Bol (p, s, c) = (if p = None then [(p, s, c)] else [])"
| "rmatch icase Eol (p, s, c) = (if s = [] then [(p, s, c)] else [])"

text \<open>
  A successful search: the text before the match, the matched text, the text after it,
  and the captures.
\<close>

record rmatch_result =
  before :: string
  matched :: string
  after :: string
  caps :: captures

text \<open>
  \<open>search icase r acc p s\<close> looks for the leftmost match in \<open>s\<close>, where \<open>acc\<close> is the text
  already passed over and \<open>p\<close> the character before \<open>s\<close>.
\<close>

fun search :: "bool \<Rightarrow> regex \<Rightarrow> string \<Rightarrow> char option \<Rightarrow> string \<Rightarrow> rmatch_result option" where
  "search icase r acc p [] =
     (case rmatch icase r (p, [], []) of
        [] \<Rightarrow> None
      | (p', s', c') # _ \<Rightarrow> Some \<lparr>before = acc, matched = [], after = [], caps = c'\<rparr>)"
| "search icase r acc p (x # xs) =
     (case rmatch icase r (p, x # xs, []) of
        [] \<Rightarrow> search icase r (acc @ [x]) (Some x) xs
      | (p', s', c') # _ \<Rightarrow>
          Some \<lparr>before = acc, matched = take (length (x # xs) - length s') (x # xs),
                after = s', caps = c'\<rparr>)"

text \<open>\<^verbatim>\<open>re.test(s)\<close>, \<^verbatim>\<open>s.match(re)\<close> and \<^verbatim>\<open>s.replace(re, '')\<close> for a pattern without the flag \<^verbatim>\<open>g\<close>.\<close>

definition match :: "bool \<Rightarrow> regex \<Rightarrow> string \<Rightarrow> rmatch_result option" where
  "match icase r s = search icase r [] None s"

definition test :: "bool \<Rightarrow> regex \<Rightarrow> string \<Rightarrow> bool" where
  "test icase r s = (match icase r s \<noteq> None)"

definition replace_first :: "bool \<Rightarrow> regex \<Rightarrow> string \<Rightarrow> string" where
  "replace_first icase r s =
     (case match icase r s of None \<Rightarrow> s | Some m \<Rightarrow> before m @ after m)"

text \<open>The text of a capturing group; \<open>None\<close> when the group took no part in the match.\<close>

definition capture :: "rmatch_result \<Rightarrow> nat \<Rightarrow> string option" where
  "capture m n = map_of (caps m) n"

text \<open>
  The text of a group that every match of its pattern contains (one outside every optional
  part and alternative).
\<close>

definition capture_text :: "rmatch_result \<Rightarrow> nat \<Rightarrow> string" where
  "capture_text m n = (case capture m n of None \<Rightarrow> [] | Some t \<Rightarrow> t)"

text \<open>
  A pattern with the flag \<^verbatim>\<open>g\<close> is applied from left to right: after a match the scan goes
  on behind it (one character further after an empty match). \<open>scan_all\<close> cuts the input
  into the matches and the characters between them; \<open>skip\<close> counts the characters of the
  last match that are still to be passed.
\<close>

datatype piece = Kept char | Hit string

fun scan_all :: "bool \<Rightarrow> regex \<Rightarrow> nat \<Rightarrow> char option \<Rightarrow> string \<Rightarrow> piece list" where
  "scan_all icase r (Suc k) p [] = []"
| "scan_all icase r (Suc k) p (x # xs) = scan_all icase r k (Some x) xs"
| "scan_all icase r 0 p [] =
     (case rmatch icase r (p, [], []) of [] \<Rightarrow> [] | st # _ \<Rightarrow> [Hit []])"
| "scan_all icase r 0 p (x # xs) =
     (case rmatch icase r (p, x # xs, []) of
        [] \<Rightarrow> Kept x # scan_all icase r 0 (Some x) xs
      | (p', s', c') # _ \<Rightarrow>
          (let n = length (x # xs) - length s'
           in if n = 0 then Hit [] # Kept x # scan_all icase r 0 (Some x) xs
              else Hit (take n (x # xs)) # scan_all icase r (n - 1) (Some x) xs))"

text \<open>\<^verbatim>\<open>s.match(re)\<close> and \<^verbatim>\<open>s.replace(re, rep)\<close> for a pattern with the flag \<^verbatim>\<open>g\<close>; no match
  at all is the empty list (the source tests the \<^verbatim>\<open>null\<close> before it iterates).\<close>

definition match_all :: "bool \<Rightarrow> regex \<Rightarrow> string \<Rightarrow> string list" where
  "match_all icase r s =
     concat (map (\<lambda>pc. case pc of Kept c \<Rightarrow> [] | Hit m \<Rightarrow> [m]) (scan_all icase r 0 None s))"

definition replace_all :: "bool \<Rightarrow> regex \<Rightarrow> string \<Rightarrow> string \<Rightarrow> string" where
  "replace_all icase r rep s =
     concat (map (\<lambda>pc. case pc of Kept c \<Rightarrow> [c] | Hit m \<Rightarrow> rep) (scan_all icase r 0 None s))"

text \<open>\<^verbatim>\<open>s.split(re)\<close> for a pattern that matches one character of a set.\<close>

fun split_on :: "(char \<Rightarrow> bool) \<Rightarrow> string \<Rightarrow> string list" where
  "split_on sep [] = [] # []"
| "split_on sep (x # xs) =
     (if sep x then [] # split_on sep xs
      else case split_on sep xs of [] \<Rightarrow> [x] # [] | w # ws \<Rightarrow> (x # w) # ws)"

section \<open>The time extractor\<close>

text \<open>
  \<^verbatim>\<open>/\b(0?[0-9]|1[0-9]|2[0-3]):([0-5][0-9])\s*(am|pm)?\b/i\<close>, the pattern of \<^verbatim>\<open>standardMatch\<close>
  in \<^verbatim>\<open>parseTime\<close>.
\<close>

definition re_standard_time :: regex where
  "re_standard_time =
     seqs [WordB,
           Grp 1 (Or (Seq (Opt (Chars ''0'')) (OneOf [Range (CHR ''0'') (CHR ''9'')]))
                 (Or (Seq (Chars ''1'') (OneOf [Range (CHR ''0'') (CHR ''9'')]))
                     (Seq (Chars ''2'') (OneOf [Range (CHR ''0'') (CHR ''3'')])))),
           Chars '':'',
           Grp 2 (Seq (OneOf [Range (CHR ''0'') (CHR ''5'')]) (OneOf [Range (CHR ''0'') (CHR ''9'')])),
           Many 0 None [Space],
           Opt (Grp 3 (alts [''am'', ''pm''])),
           WordB]"

text \<open>\<^verbatim>\<open>/\bword\b/\<close> for a fixed word.\<close>

definition re_word :: "string \<Rightarrow> regex" where
  "re_word w = seqs [WordB, Chars w, WordB]"

text \<open>
  \<^verbatim>\<open>parseTime\<close>: an \<^verbatim>\<open>H:MM\<close> clock time with an optional period, else the period words,
  tested one after the other.
\<close>

definition parseTime :: "string \<Rightarrow> string option" where
  "parseTime input =
     (let lowerInput = toLowerCase input
      in case match True re_standard_time lowerInput of
           Some m \<Rightarrow>
             (let hours = parseInt (capture_text m 1);
                  minutes = capture_text m 2;
                  hours' =
                    (case capture m 3 of
                       None \<Rightarrow> hours
                     | Some period \<Rightarrow>
                         (let h1 = (if period \<noteq> [] \<and> toLowerCase period = ''pm'' \<and> hours \<noteq> 12
                                    then hours + 12 else hours)
                          in if period \<noteq> [] \<and> toLowerCase period = ''am'' \<and> h1 = 12
                             then 0 else h1))
              in Some (padStart2 (string_of_nat hours') @ '':'' @ minutes))
         | None \<Rightarrow>
             if test True (re_word ''morning'') lowerInput then Some ''09:00''
             else if test True (re_word ''afternoon'') lowerInput then Some ''14:00''
             else if test True (re_word ''evening'') lowerInput then Some ''18:00''
             else if test True (re_word ''night'') lowerInput then Some ''21:00''
             else if test True (re_word ''tonight'') lowerInput then Some ''20:00''
             else None)"

section \<open>Dates\<close>

text \<open>
  A JavaScript \<^verbatim>\<open>Date\<close> holds a time value, a number of milliseconds since the start of
  1 January 1970 UTC, or is an Invalid Date. The functions below are those of ECMA-262
  (section Date Objects), on integers. JavaScript computes in floating point, which is
  exact on the integers below \<open>2 ^ 53\<close> in magnitude, well beyond the representable time
  values.
\<close>

datatype Date = Invalid | Valid int

definition msPerDay :: int where "msPerDay = 86400000"
definition msPerHour :: int where "msPerHour = 3600000"
definition msPerMinute :: int where "msPerMinute = 60000"
definition msPerSecond :: int where "msPerSecond = 1000"

definition Day :: "int \<Rightarrow> int" where
  "Day t = t div msPerDay"

definition TimeWithinDay :: "int \<Rightarrow> int" where
  "TimeWithinDay t = t mod msPerDay"

definition DaysInYear :: "int \<Rightarrow> int" where
  "DaysInYear y =
     (if y mod 4 \<noteq> 0 then 365 else if y mod 100 \<noteq> 0 then 366
      else if y mod 400 \<noteq> 0 then 365 else 366)"

definition DayFromYear :: "int \<Rightarrow> int" where
  "DayFromYear y = 365 * (y - 1970) + (y - 1969) div 4 - (y - 1901) div 100 + (y - 1601) div 400"

text \<open>The year of a day number: the largest \<open>y\<close> with \<open>DayFromYear y \<le> d\<close>, found from an
  estimate that is off by one year at most.\<close>

definition YearFromDay :: "int \<Rightarrow> int" where
  "YearFromDay d =
     (let y0 = 1970 + (d * 400) div 146097
      in if d < DayFromYear y0 then y0 - 1
         else if DayFromYear (y0 + 1) \<le> d then y0 + 1
         else y0)"

definition YearFromTime :: "int \<Rightarrow> int" where
  "YearFromTime t = YearFromDay (Day t)"

definition InLeapYear :: "int \<Rightarrow> bool" where
  "InLeapYear t = (DaysInYear (YearFromTime t) = 366)"

definition DayWithinYear :: "int \<Rightarrow> int" where
  "DayWithinYear t = Day t - DayFromYear (YearFromTime t)"

text \<open>The day within the year on which month \<open>m\<close> (0 to 11) begins.\<close>

definition month_start :: "bool \<Rightarrow> int \<Rightarrow> int" where
  "month_start leap m =
     (let l = (if leap then 1 else 0)
      in if m = 0 then 0 else if m = 1 then 31 else if m = 2 then 59 + l
         else if m = 3 then 90 + l else if m = 4 then 120 + l else if m = 5 then 151 + l
         else if m = 6 then 181 + l else if m = 7 then 212 + l else if m = 8 then 243 + l
         else if m = 9 then 273 + l else if m = 10 then 304 + l else 334 + l)"

definition MonthFromTime :: "int \<Rightarrow> int" where
  "MonthFromTime t =
     (let d = DayWithinYear t; l = (if InLeapYear t then 1 else 0)
      in if d < 31 then 0 else if d < 59 + l then 1 else if d < 90 + l then 2
         else if d < 120 + l then 3 else if d < 151 + l then 4 else if d < 181 + l then 5
         else if d < 212 + l then 6 else if d < 243 + l then 7 else if d < 273 + l then 8
         else if d < 304 + l then 9 else if d < 334 + l then 10 else 11)"

definition DateFromTime :: "int \<Rightarrow> int" where
  "DateFromTime t = DayWithinYear t - month_start (InLeapYear t) (MonthFromTime t) + 1"

definition WeekDay :: "int \<Rightarrow> int" where
  "WeekDay t = (Day t + 4) mod 7"

definition HourFromTime :: "int \<Rightarrow> int" where
  "HourFromTime t = (t div msPerHour) mod 24"

definition MinFromTime :: "int \<Rightarrow> int" where
  "MinFromTime t = (t div msPerMinute) mod 60"

definition SecFromTime :: "int \<Rightarrow> int" where
  "SecFromTime t = (t div msPerSecond) mod 60"

definition msFromTime :: "int \<Rightarrow> int" where
  "msFromTime t = t mod msPerSecond"

definition MakeTime :: "int \<Rightarrow> int \<Rightarrow> int \<Rightarrow> int \<Rightarrow> int" where
  "MakeTime h m s ms = h * msPerHour + m * msPerMinute + s * msPerSecond + ms"

definition MakeDay :: "int \<Rightarrow> int \<Rightarrow> int \<Rightarrow> int" where
  "MakeDay year month date =
     (let ym = year + month div 12; mn = month mod 12
      in DayFromYear ym + month_start (DaysInYear ym = 366) mn + date - 1)"

definition MakeDate :: "int \<Rightarrow> int \<Rightarrow> int" where
  "MakeDate day time = day * msPerDay + time"

text \<open>A time value further than 8.64e15 ms from the epoch is not representable.\<close>

definition maxTime :: int where "maxTime = 8640000000000000"

definition TimeClip :: "int \<Rightarrow> Date" where
  "TimeClip t = (if \<bar>t\<bar> > maxTime then Invalid else Valid t)"

text \<open>
  Local time. ECMA-262 leaves the time zone to the implementation, as the function
  \<^verbatim>\<open>LocalTZA(t, isUTC)\<close>: the offset of local time from UTC in milliseconds, at the UTC time
  value \<open>t\<close> when \<open>isUTC\<close> is true and for the local time value \<open>t\<close> when it is false. A
  local time that a clock change skips or repeats is read with the offset in force before
  the change. The zone is the parameter \<open>tz\<close> of everything that reads or writes local
  time.
\<close>

type_synonym zone = "int \<Rightarrow> bool \<Rightarrow> int"

definition LocalTime :: "zone \<Rightarrow> int \<Rightarrow> int" where
  "LocalTime tz t = t + tz t True"

definition UTC :: "zone \<Rightarrow> int \<Rightarrow> int" where
  "UTC tz t = t - tz t False"

text \<open>A zone without clock changes, and the zone of America/Havana in 2026: five hours
  behind UTC, and four hours behind from 8 March, 05:00 UTC (local midnight, when the clocks
  go to 01:00) to 1 November, 05:00 UTC (01:00 local time, when they go back to midnight).\<close>

definition fixed_zone :: "int \<Rightarrow> zone" where
  "fixed_zone off = (\<lambda>t isUTC. off)"

definition havana_2026 :: zone where
  "havana_2026 =
     (\<lambda>t isUTC.
        if isUTC
        then (if t < 1772946000000 then - 18000000
              else if t < 1793509200000 then - 14400000 else - 18000000)
        else (if t < 1772931600000 then - 18000000
              else if t < 1793494800000 then - 14400000 else - 18000000))"

text \<open>
  The getters \<^verbatim>\<open>getDate\<close>, \<^verbatim>\<open>getDay\<close>, \<^verbatim>\<open>getMonth\<close>, \<^verbatim>\<open>getFullYear\<close>, \<^verbatim>\<open>getHours\<close> and
  \<^verbatim>\<open>getMinutes\<close> read the local time of a valid time value: the parser calls them only on
  an object that \<^verbatim>\<open>new Date()\<close> has just made from the clock.
\<close>

definition getDate :: "zone \<Rightarrow> int \<Rightarrow> int" where
  "getDate tz t = DateFromTime (LocalTime tz t)"

definition getDay :: "zone \<Rightarrow> int \<Rightarrow> int" where
  "getDay tz t = WeekDay (LocalTime tz t)"

definition getMonth :: "zone \<Rightarrow> int \<Rightarrow> int" where
  "getMonth tz t = MonthFromTime (LocalTime tz t)"

definition getFullYear :: "zone \<Rightarrow> int \<Rightarrow> int" where
  "getFullYear tz t = YearFromTime (LocalTime tz t)"

definition getHours :: "zone \<Rightarrow> int \<Rightarrow> int" where
  "getHours tz t = HourFromTime (LocalTime tz t)"

definition getMinutes :: "zone \<Rightarrow> int \<Rightarrow> int" where
  "getMinutes tz t = MinFromTime (LocalTime tz t)"

text \<open>The setters work on the local time and store the UTC time value of the result; an
  argument that the call leaves out is \<open>None\<close>. An Invalid Date stays invalid, except under
  \<^verbatim>\<open>setFullYear\<close>, which starts from the time value 0.\<close>

definition setHours :: "zone \<Rightarrow> Date \<Rightarrow> int \<Rightarrow> int option \<Rightarrow> int option \<Rightarrow> int option \<Rightarrow> Date" where
  "setHours tz d h mo so mso =
     (case d of
        Invalid \<Rightarrow> Invalid
      | Valid tv \<Rightarrow>
          (let t = LocalTime tz tv;
               m = (case mo of None \<Rightarrow> MinFromTime t | Some m \<Rightarrow> m);
               s = (case so of None \<Rightarrow> SecFromTime t | Some s \<Rightarrow> s);
               ms = (case mso of None \<Rightarrow> msFromTime t | Some ms \<Rightarrow> ms)
           in TimeClip (UTC tz (MakeDate (Day t) (MakeTime h m s ms)))))"

definition setMinutes :: "zone \<Rightarrow> Date \<Rightarrow> int \<Rightarrow> Date" where
  "setMinutes tz d m =
     (case d of
        Invalid \<Rightarrow> Invalid
      | Valid tv \<Rightarrow>
          (let t = LocalTime tz tv
           in TimeClip (UTC tz (MakeDate (Day t)
                (MakeTime (HourFromTime t) m (SecFromTime t) (msFromTime t))))))"

definition setDate :: "zone \<Rightarrow> Date \<Rightarrow> int \<Rightarrow> Date" where
  "setDate tz d dt =
     (case d of
        Invalid \<Rightarrow> Invalid
      | Valid tv \<Rightarrow>
          (let t = LocalTime tz tv
           in TimeClip (UTC tz (MakeDate (MakeDay (YearFromTime t) (MonthFromTime t) dt)
                (TimeWithinDay t)))))"

definition setMonth :: "zone \<Rightarrow> Date \<Rightarrow> int \<Rightarrow> Date" where
  "setMonth tz d m =
     (case d of
        Invalid \<Rightarrow> Invalid
      | Valid tv \<Rightarrow>
          (let t = LocalTime tz tv
           in TimeClip (UTC tz (MakeDate (MakeDay (YearFromTime t) m (DateFromTime t))
                (TimeWithinDay t)))))"

definition setFullYear :: "zone \<Rightarrow> Date \<Rightarrow> int \<Rightarrow> Date" where
  "setFullYear tz d y =
     (let t = (case d of Invalid \<Rightarrow> 0 | Valid tv \<Rightarrow> LocalTime tz tv)
      in TimeClip (UTC tz (MakeDate (MakeDay y (MonthFromTime t) (DateFromTime t))
           (TimeWithinDay t))))"

text \<open>\<^verbatim>\<open>new Date(year, month, day)\<close>, the local midnight of that day; a year from 0 to 99
  stands for 1900 + year.\<close>

definition newDate :: "zone \<Rightarrow> int \<Rightarrow> int \<Rightarrow> int \<Rightarrow> Date" where
  "newDate tz year month day =
     (let yr = (if 0 \<le> year \<and> year \<le> 99 then 1900 + year else year)
      in TimeClip (UTC tz (MakeDate (MakeDay yr month day) (MakeTime 0 0 0 0))))"

text \<open>\<^verbatim>\<open>a < b\<close> on dates compares the time values; it is false when either is invalid.\<close>

definition date_less :: "Date \<Rightarrow> Date \<Rightarrow> bool" where
  "date_less a b = (case (a, b) of (Valid x, Valid y) \<Rightarrow> x < y | _ \<Rightarrow> False)"

text \<open>\<^verbatim>\<open>d.setHours(0, 0, 0, 0)\<close>, the last step of every date rule.\<close>

definition atMidnight :: "zone \<Rightarrow> Date \<Rightarrow> Date" where
  "atMidnight tz d = setHours tz d 0 (Some 0) (Some 0) (Some 0)"

text \<open>
  A local time value \<open>x\<close> is the local time of an instant when no clock change skips it,
  and that instant is a date when its time value is representable.
\<close>

definition not_skipped :: "zone \<Rightarrow> int \<Rightarrow> bool" where
  "not_skipped tz x = (LocalTime tz (UTC tz x) = x)"

definition local_instant :: "zone \<Rightarrow> int \<Rightarrow> bool" where
  "local_instant tz x = (\<bar>UTC tz x\<bar> \<le> maxTime \<and> not_skipped tz x)"

section \<open>The date extractor\<close>

definition DAYS_OF_WEEK :: "string \<rightharpoonup> int" where
  "DAYS_OF_WEEK =
     map_of [(''monday'', 1), (''tuesday'', 2), (''wednesday'', 3), (''thursday'', 4),
             (''friday'', 5), (''saturday'', 6), (''sunday'', 0),
             (''mon'', 1), (''tue'', 2), (''wed'', 3), (''thu'', 4), (''fri'', 5),
             (''sat'', 6), (''sun'', 0)]"

definition MONTHS :: "string \<rightharpoonup> int" where
  "MONTHS =
     map_of [(''january'', 0), (''february'', 1), (''march'', 2), (''april'', 3), (''may'', 4),
             (''june'', 5), (''july'', 6), (''august'', 7), (''september'', 8),
             (''october'', 9), (''november'', 10), (''december'', 11),
             (''jan'', 0), (''feb'', 1), (''mar'', 2), (''apr'', 3), (''jun'', 5), (''jul'', 6),
             (''aug'', 7), (''sep'', 8), (''oct'', 9), (''nov'', 10), (''dec'', 11)]"

text \<open>The alternatives of the weekday and month groups, in the order of the patterns.\<close>

definition weekday_alts :: "string list" where
  "weekday_alts =
     [''monday'', ''tuesday'', ''wednesday'', ''thursday'', ''friday'', ''saturday'', ''sunday'',
      ''mon'', ''tue'', ''wed'', ''thu'', ''fri'', ''sat'', ''sun'']"

definition month_alts :: "string list" where
  "month_alts =
     [''january'', ''february'', ''march'', ''april'', ''may'', ''june'', ''july'', ''august'',
      ''september'', ''october'', ''november'', ''december'',
      ''jan'', ''feb'', ''mar'', ''apr'', ''may'', ''jun'', ''jul'', ''aug'', ''sep'', ''oct'',
      ''nov'', ''dec'']"

definition unit_alts :: "string list" where
  "unit_alts =
     [''day'', ''days'', ''week'', ''weeks'', ''month'', ''months'', ''hour'', ''hours'',
      ''minute'', ''minutes'']"

text \<open>\<^verbatim>\<open>/\bnext\s+(monday|...|sun)\b/i\<close>\<close>

definition re_next_day :: regex where
  "re_next_day = seqs [WordB, Chars ''next'', Many 1 None [Space], Grp 1 (alts weekday_alts), WordB]"

text \<open>\<^verbatim>\<open>/\b(monday|...|sun)\b/i\<close>\<close>

definition re_day :: regex where
  "re_day = seqs [WordB, Grp 1 (alts weekday_alts), WordB]"

text \<open>\<^verbatim>\<open>/\b(january|...|dec)\s+(\d{1,2})\b/i\<close>\<close>

definition re_month_day :: regex where
  "re_month_day =
     seqs [WordB, Grp 1 (alts month_alts), Many 1 None [Space], Grp 2 (Many 1 (Some 2) [Digit]), WordB]"

text \<open>\<^verbatim>\<open>/\bin\s+(\d+)\s+(day|days|...|minutes)\b/i\<close>\<close>

definition re_relative :: regex where
  "re_relative =
     seqs [WordB, Chars ''in'', Many 1 None [Space], Grp 1 (Many 1 None [Digit]),
           Many 1 None [Space], Grp 2 (alts unit_alts), WordB]"

text \<open>\<^verbatim>\<open>/\b(\d{1,2})[\/\-.](\d{1,2})[\/\-.](\d{2,4})\b/\<close>\<close>

definition re_numeric :: regex where
  "re_numeric =
     seqs [WordB, Grp 1 (Many 1 (Some 2) [Digit]),
           OneOf [Single (CHR ''/''), Single (CHR ''-''), Single (CHR ''.'')],
           Grp 2 (Many 1 (Some 2) [Digit]),
           OneOf [Single (CHR ''/''), Single (CHR ''-''), Single (CHR ''.'')],
           Grp 3 (Many 2 (Some 4) [Digit]), WordB]"

definition startsWith :: "string \<Rightarrow> string \<Rightarrow> bool" where
  "startsWith s p = (take (length p) s = p)"

text \<open>
  The seven blocks of \<^verbatim>\<open>parseDate\<close>, each as the date it returns. \<open>now\<close> is the time value
  that \<^verbatim>\<open>new Date()\<close> reads from the clock, one reading for the whole call. A name missing
  from \<open>DAYS_OF_WEEK\<close> or \<open>MONTHS\<close> would read as \<^verbatim>\<open>undefined\<close> and make the date invalid.
\<close>

definition date_today :: "zone \<Rightarrow> int \<Rightarrow> Date" where
  "date_today tz now = atMidnight tz (Valid now)"

definition date_tomorrow :: "zone \<Rightarrow> int \<Rightarrow> Date" where
  "date_tomorrow tz now = atMidnight tz (setDate tz (Valid now) (getDate tz now + 1))"

definition date_next_day :: "zone \<Rightarrow> int \<Rightarrow> rmatch_result \<Rightarrow> Date" where
  "date_next_day tz now m =
     (let dayName = toLowerCase (capture_text m 1)
      in case DAYS_OF_WEEK dayName of
           None \<Rightarrow> Invalid
         | Some targetDay \<Rightarrow>
             (let currentDay = getDay tz now;
                  daysUntil = (targetDay - currentDay + 7) mod 7;
                  daysUntil = (if daysUntil = 0 then 7 else daysUntil)
              in atMidnight tz (setDate tz (Valid now) (getDate tz now + daysUntil))))"

definition date_day :: "zone \<Rightarrow> int \<Rightarrow> rmatch_result \<Rightarrow> Date" where
  "date_day tz now m =
     (let dayName = toLowerCase (capture_text m 1)
      in case DAYS_OF_WEEK dayName of
           None \<Rightarrow> Invalid
         | Some targetDay \<Rightarrow>
             (let currentDay = getDay tz now;
                  daysUntil = (targetDay - currentDay + 7) mod 7;
                  daysUntil = (if daysUntil < 0 then daysUntil + 7 else daysUntil)
              in atMidnight tz (setDate tz (Valid now) (getDate tz now + daysUntil))))"

definition date_month_day :: "zone \<Rightarrow> int \<Rightarrow> rmatch_result \<Rightarrow> Date" where
  "date_month_day tz now m =
     (let monthName = toLowerCase (capture_text m 1);
          day = int (parseInt (capture_text m 2))
      in case MONTHS monthName of
           None \<Rightarrow> Invalid
         | Some month \<Rightarrow>
             (let year = getFullYear tz now;
                  date = newDate tz year month day;
                  date = (if date_less date (Valid now) then setFullYear tz date (year + 1)
                          else date)
              in atMidnight tz date))"

definition date_relative :: "zone \<Rightarrow> int \<Rightarrow> rmatch_result \<Rightarrow> Date" where
  "date_relative tz now m =
     (let amount = int (parseInt (capture_text m 1));
          unit = toLowerCase (capture_text m 2);
          date = Valid now;
          date =
            (if startsWith unit ''day'' then setDate tz date (getDate tz now + amount)
             else if startsWith unit ''week'' then setDate tz date (getDate tz now + amount * 7)
             else if startsWith unit ''month'' then setMonth tz date (getMonth tz now + amount)
             else if startsWith unit ''hour''
             then setHours tz date (getHours tz now + amount) None None None
             else if startsWith unit ''minute'' then setMinutes tz date (getMinutes tz now + amount)
             else date)
      in atMidnight tz date)"

definition date_numeric :: "zone \<Rightarrow> rmatch_result \<Rightarrow> Date" where
  "date_numeric tz m =
     (let month = int (parseInt (capture_text m 1)) - 1;
          day = int (parseInt (capture_text m 2));
          year = int (parseInt (capture_text m 3));
          year = (if year < 100 then year + (if year < 50 then 2000 else 1900) else year)
      in atMidnight tz (newDate tz year month day))"

text \<open>\<^verbatim>\<open>parseDate\<close>: the blocks in the order of the source, each returning when its pattern
  matches; \<open>None\<close> is the \<^verbatim>\<open>null\<close> of the last line.\<close>

definition parseDate :: "zone \<Rightarrow> int \<Rightarrow> string \<Rightarrow> Date option" where
  "parseDate tz now input =
     (let lowerInput = toLowerCase input
      in if test False (re_word ''today'') lowerInput then Some (date_today tz now)
         else if test False (re_word ''tomorrow'') lowerInput then Some (date_tomorrow tz now)
         else case match True re_next_day lowerInput of
           Some m \<Rightarrow> Some (date_next_day tz now m)
         | None \<Rightarrow>
         (case match True re_day lowerInput of
           Some m \<Rightarrow> Some (date_day tz now m)
         | None \<Rightarrow>
         (case match True re_month_day lowerInput of
           Some m \<Rightarrow> Some (date_month_day tz now m)
         | None \<Rightarrow>
         (case match True re_relative lowerInput of
           Some m \<Rightarrow> Some (date_relative tz now m)
         | None \<Rightarrow>
         (case match False re_numeric lowerInput of
           Some m \<Rightarrow> Some (date_numeric tz m)
         | None \<Rightarrow> None)))))"

section \<open>The tag extractor\<close>

text \<open>\<^verbatim>\<open>/#([a-zA-Z0-9_-]+)/g\<close>\<close>

definition tag_chars :: "cset list" where
  "tag_chars = [Range (CHR ''a'') (CHR ''z''), Range (CHR ''A'') (CHR ''Z''),
                Range (CHR ''0'') (CHR ''9''), Single (CHR ''_''), Single (CHR ''-'')]"

definition re_hashtag :: regex where
  "re_hashtag = seqs [Chars ''#'', Grp 1 (Many 1 None tag_chars)]"

text \<open>\<^verbatim>\<open>/tag:\s*([a-zA-Z0-9_\s,]+)/gi\<close>\<close>

definition tag_list_chars :: "cset list" where
  "tag_list_chars = [Range (CHR ''a'') (CHR ''z''), Range (CHR ''A'') (CHR ''Z''),
                     Range (CHR ''0'') (CHR ''9''), Single (CHR ''_''), Space, Single (CHR '','')]"

definition re_tag_list :: regex where
  "re_tag_list = seqs [Chars ''tag:'', Many 0 None [Space], Grp 1 (Many 1 None tag_list_chars)]"

text \<open>\<^verbatim>\<open>tags.add(tag)\<close> on the insertion-ordered set, guarded by \<^verbatim>\<open>if (tag)\<close>.\<close>

definition add_tag :: "string list \<Rightarrow> string \<Rightarrow> string list" where
  "add_tag tags tag = (if tag \<noteq> [] \<and> tag \<notin> set tags then tags @ [tag] else tags)"

definition extractTags :: "string \<Rightarrow> string list" where
  "extractTags input =
     (let hashtagMatches = match_all False re_hashtag input;
          tags = foldl (\<lambda>tags m. add_tag tags (toLowerCase (drop 1 m))) [] hashtagMatches;
          tagMatch = match_all True re_tag_list input
      in foldl (\<lambda>tags m.
                  (let tagPart = trim (replace_first True (Chars ''tag:'') m);
                       tagList = map (\<lambda>t. toLowerCase (trim t))
                                     (split_on (\<lambda>c. c = CHR '','' \<or> c = CHR '';'') tagPart)
                   in foldl add_tag tags tagList))
               tags tagMatch)"

section \<open>The title cleaner\<close>

text \<open>The pattern lists \<^verbatim>\<open>TIME_PATTERNS\<close> and \<^verbatim>\<open>DATE_PATTERNS\<close>: each entry is the flag \<^verbatim>\<open>i\<close>
  and the pattern. None of them carries the flag \<^verbatim>\<open>g\<close>.\<close>

definition TIME_PATTERNS :: "(bool \<times> regex) list" where
  "TIME_PATTERNS =
     [(False,
       seqs [WordB,
             Grp 1 (Or (Seq (Opt (Chars ''0'')) (OneOf [Range (CHR ''0'') (CHR ''9'')]))
                   (Or (Seq (Chars ''1'') (OneOf [Range (CHR ''0'') (CHR ''9'')]))
                       (Seq (Chars ''2'') (OneOf [Range (CHR ''0'') (CHR ''3'')])))),
             Chars '':'',
             Grp 2 (Seq (OneOf [Range (CHR ''0'') (CHR ''5'')]) (OneOf [Range (CHR ''0'') (CHR ''9'')])),
             Many 0 None [Space],
             Opt (Grp 3 (alts [''am'', ''pm'', ''AM'', ''PM''])),
             WordB]),
      (True,
       seqs [WordB, Grp 1 (alts [''morning'', ''afternoon'', ''evening'', ''night'', ''tonight'']),
             WordB]),
      (True,
       seqs [WordB,
             Opt (Grp 1 (Seq (Chars ''at'') (Many 1 None [Space]))),
             Grp 2 (Many 1 (Some 2) [Digit]),
             Opt (Seq (Chars '':'') (Grp 3 (Many 2 (Some 2) [Digit]))),
             Many 0 None [Space],
             Grp 4 (alts [''am'', ''pm'', ''AM'', ''PM'']),
             WordB])]"

definition DATE_PATTERNS :: "(bool \<times> regex) list" where
  "DATE_PATTERNS =
     [(True, seqs [WordB, Grp 1 (Chars ''today''), WordB]),
      (True, seqs [WordB, Grp 1 (Chars ''tomorrow''), WordB]),
      (True, seqs [WordB, Grp 1 (Chars ''tonight''), WordB]),
      (True,
       seqs [WordB,
             Grp 1 (seqs [Chars ''next'', Many 1 None [Space],
                          Grp 2 (alts [''monday'', ''tuesday'', ''wednesday'', ''thursday'',
                                       ''friday'', ''saturday'', ''sunday''])]),
             WordB]),
      (True,
       seqs [WordB, Grp 1 (alts [''mon'', ''tue'', ''wed'', ''thu'', ''fri'', ''sat'', ''sun'']),
             WordB]),
      (True,
       seqs [WordB,
             Grp 1 (alts [''monday'', ''tuesday'', ''wednesday'', ''thursday'', ''friday'',
                          ''saturday'', ''sunday'']),
             WordB]),
      (False, re_numeric),
      (True, re_month_day),
      (True,
       seqs [WordB,
             Opt (Grp 1 (Seq (Chars ''in'') (Many 1 None [Space]))),
             Grp 2 (Many 1 None [Digit]),
             Many 1 None [Space],
             Grp 3 (alts unit_alts),
             WordB])]"

text \<open>
  The text that \<^verbatim>\<open>cleanInput\<close> is left with before its last line: hashtags and \<^verbatim>\<open>tag:\<close> lists
  removed (patterns with the flag \<^verbatim>\<open>g\<close>, here without their groups), then one
  \<^verbatim>\<open>replace\<close> for each date pattern and each time pattern, then the white space trimmed
  and collapsed.
\<close>

definition strip_patterns :: "(bool \<times> regex) list \<Rightarrow> string \<Rightarrow> string" where
  "strip_patterns ps s = foldl (\<lambda>cleaned (icase, pattern). replace_first icase pattern cleaned) s ps"

definition cleaned_text :: "string \<Rightarrow> string" where
  "cleaned_text input =
     (let cleaned = input;
          cleaned = replace_all False (seqs [Chars ''#'', Many 1 None tag_chars]) [] cleaned;
          cleaned = replace_all True
                      (seqs [Chars ''tag:'', Many 0 None [Space], Many 1 None tag_list_chars])
                      [] cleaned;
          cleaned = strip_patterns DATE_PATTERNS cleaned;
          cleaned = strip_patterns TIME_PATTERNS cleaned
      in trim (replace_all False (Many 1 None [Space]) '' '' (trim cleaned)))"

text \<open>\<^verbatim>\<open>cleanInput\<close>; its last line is \<^verbatim>\<open>return cleaned || 'New Task'\<close>. The parameter \<open>tags\<close>
  is not used by the source either.\<close>

definition cleanInput :: "string \<Rightarrow> string list \<Rightarrow> string" where
  "cleanInput input tags =
     (let cleaned = cleaned_text input in if cleaned = [] then ''New Task'' else cleaned)"

section \<open>The parser\<close>

record ParsedTask =
  title :: string
  date :: "Date option"
  time :: "string option"
  tags :: "string list"
  rawInput :: string

definition parseTaskInput :: "zone \<Rightarrow> int \<Rightarrow> string \<Rightarrow> ParsedTask" where
  "parseTaskInput tz now input =
     (let tags = extractTags input;
          date = parseDate tz now input;
          time = parseTime input;
          title = cleanInput input tags
      in \<lparr>title = title, date = date, time = time, tags = tags, rawInput = input\<rparr>)"

section \<open>Date suggestions\<close>

text \<open>The icon of every date suggestion is the calendar emoji, a constant of the source.\<close>

datatype icon = CalendarIcon

text \<open>The fields \<^verbatim>\<open>text\<close>, \<^verbatim>\<open>date\<close> and \<^verbatim>\<open>icon\<close> of a suggestion.\<close>

record DateSuggestion =
  suggestion_text :: string
  suggestion_date :: Date
  suggestion_icon :: icon

text \<open>\<^verbatim>\<open>/^t?o?d?a?y?$/i\<close>, \<^verbatim>\<open>/^t?o?m?o?r?r?o?w?$/i\<close> and \<^verbatim>\<open>/^n?e?x?t?\.?\s?w?e?e?k?$/i\<close>\<close>

definition re_partial_today :: regex where
  "re_partial_today =
     seqs [Bol, Opt (Chars ''t''), Opt (Chars ''o''), Opt (Chars ''d''), Opt (Chars ''a''),
           Opt (Chars ''y''), Eol]"

definition re_partial_tomorrow :: regex where
  "re_partial_tomorrow =
     seqs [Bol, Opt (Chars ''t''), Opt (Chars ''o''), Opt (Chars ''m''), Opt (Chars ''o''),
           Opt (Chars ''r''), Opt (Chars ''r''), Opt (Chars ''o''), Opt (Chars ''w''), Eol]"

definition re_partial_next_week :: regex where
  "re_partial_next_week =
     seqs [Bol, Opt (Chars ''n''), Opt (Chars ''e''), Opt (Chars ''x''), Opt (Chars ''t''),
           Opt (Chars ''.''), Opt (OneOf [Space]), Opt (Chars ''w''), Opt (Chars ''e''),
           Opt (Chars ''e''), Opt (Chars ''k''), Eol]"

text \<open>\<^verbatim>\<open>a.getTime() === b.getTime()\<close>: false when either date is invalid.\<close>

definition same_time :: "Date \<Rightarrow> Date \<Rightarrow> bool" where
  "same_time a b = (case (a, b) of (Valid x, Valid y) \<Rightarrow> x = y | _ \<Rightarrow> False)"

text \<open>\<^verbatim>\<open>d.setDate(d.getDate() + n)\<close> on a date that may be invalid.\<close>

definition addDays :: "zone \<Rightarrow> Date \<Rightarrow> int \<Rightarrow> Date" where
  "addDays tz d n = (case d of Invalid \<Rightarrow> Invalid | Valid t \<Rightarrow> setDate tz d (getDate tz t + n))"

definition suggestion :: "string \<Rightarrow> Date \<Rightarrow> DateSuggestion" where
  "suggestion label d = \<lparr>suggestion_text = label, suggestion_date = d, suggestion_icon = CalendarIcon\<rparr>"

definition getDateSuggestions :: "zone \<Rightarrow> int \<Rightarrow> string \<Rightarrow> DateSuggestion list" where
  "getDateSuggestions tz now input =
     (let suggestions = [];
          suggestions =
            (if test True re_partial_today (trim input)
             then suggestions @ [suggestion ''Today'' (atMidnight tz (Valid now))]
             else suggestions);
          suggestions =
            (if test True re_partial_tomorrow (trim input)
             then suggestions @ [suggestion ''Tomorrow'' (atMidnight tz (addDays tz (Valid now) 1))]
             else suggestions);
          suggestions =
            (if test True re_partial_next_week (trim input)
             then suggestions @ [suggestion ''Next Week'' (atMidnight tz (addDays tz (Valid now) 7))]
             else suggestions)
      in if length input > 0
         then (let today = atMidnight tz (Valid now);
                   tomorrow = addDays tz today 1;
                   suggestions =
                     (if \<not> list_ex (\<lambda>s. same_time (suggestion_date s) today) suggestions
                      then suggestions @ [suggestion ''Today'' today]
                      else suggestions)
               in if \<not> list_ex (\<lambda>s. same_time (suggestion_date s) tomorrow) suggestions
                  then suggestions @ [suggestion ''Tomorrow'' tomorrow]
                  else suggestions)
         else suggestions)"

section \<open>Words in a text\<close>

text \<open>
  The last character of a text that follows the character \<open>p\<close>, and the two conditions
  under which a word stands free between the texts \<open>pre\<close> and \<open>post\<close>: no word character
  right before it and none right behind it.
\<close>

fun last_char :: "char option \<Rightarrow> string \<Rightarrow> char option" where
  "last_char p [] = p"
| "last_char p (x # xs) = last_char (Some x) xs"

definition word_left :: "string \<Rightarrow> bool" where
  "word_left pre = (case last_char None pre of None \<Rightarrow> True | Some a \<Rightarrow> \<not> is_word_char a)"

definition word_right :: "string \<Rightarrow> bool" where
  "word_right post = (case post of [] \<Rightarrow> True | x # _ \<Rightarrow> \<not> is_word_char x)"

section \<open>The date rules as an ordered list\<close>

text \<open>
  The specification describes the date extractor as recognizer rules tried in a fixed
  priority order, returning on the first match: today, tomorrow, next weekday, bare
  weekday, month name and day, in N units, numeric date. \<open>first_match_wins\<close> is that
  contract; \<open>spec_date_rules\<close> lists the rules in the order of the specification, each
  rule made of its pattern and of the date that the source computes for a match.
\<close>

fun first_match_wins :: "('a \<Rightarrow> 'b option) list \<Rightarrow> 'a \<Rightarrow> 'b option" where
  "first_match_wins [] x = None"
| "first_match_wins (rule # rules) x =
     (case rule x of Some y \<Rightarrow> Some y | None \<Rightarrow> first_match_wins rules x)"

definition spec_date_rules :: "zone \<Rightarrow> int \<Rightarrow> (string \<Rightarrow> Date option) list" where
  "spec_date_rules tz now =
     [\<lambda>s. if test False (re_word ''today'') s then Some (date_today tz now) else None,
      \<lambda>s. if test False (re_word ''tomorrow'') s then Some (date_tomorrow tz now) else None,
      \<lambda>s. map_option (date_next_day tz now) (match True re_next_day s),
      \<lambda>s. map_option (date_day tz now) (match True re_day s),
      \<lambda>s. map_option (date_month_day tz now) (match True re_month_day s),
      \<lambda>s. map_option (date_relative tz now) (match True re_relative s),
      \<lambda>s. map_option (date_numeric tz) (match False re_numeric s)]"

section \<open>When the rule of relative dates decides\<close>

text \<open>
  The block \<^verbatim>\<open>in N units\<close> of \<^verbatim>\<open>parseDate\<close> is reached, and its pattern matches with the
  result \<open>m\<close>, when none of the five patterns before it matches the lowered input.
\<close>

definition relative_rule_decides :: "string \<Rightarrow> rmatch_result \<Rightarrow> bool" where
  "relative_rule_decides input m =
     (let lowerInput = toLowerCase input
      in \<not> test False (re_word ''today'') lowerInput
         \<and> \<not> test False (re_word ''tomorrow'') lowerInput
         \<and> match True re_next_day lowerInput = None
         \<and> match True re_day lowerInput = None
         \<and> match True re_month_day lowerInput = None
         \<and> match True re_relative lowerInput = Some m)"

section \<open>Evaluation on concrete inputs\<close>

text \<open>
  The character functions at the printable ASCII characters, as tables of equations: with
  them the simplifier runs the matcher on a concrete input in one rewrite step for each
  character test.
\<close>

lemmas char_defs =
  is_digit_def is_lower_def is_upper_def is_space_def is_word_char_def ascii_upper_def
  ascii_lower_def lower_char_def less_eq_char_def char_of_def bit_Suc_0_iff

lemma from_lower_a_table:
  "list_all (\<lambda>c. CHR ''a'' \<le> c)
     ''abcdefghijklmnopqrstuvwxyz{|}~''
   \<and> list_all (\<lambda>c. \<not> CHR ''a'' \<le> c) '' !#$%&()*+,-./0123456789:;<=>?@ABCDEFGHIJKLMNOPQRSTUVWXYZ[]^_`''"
  by (simp add: less_eq_char_def)

lemma from_upper_A_table:
  "list_all (\<lambda>c. CHR ''A'' \<le> c)
     ''ABCDEFGHIJKLMNOPQRSTUVWXYZ[]^_`abcdefghijklmnopqrstuvwxyz{|}~''
   \<and> list_all (\<lambda>c. \<not> CHR ''A'' \<le> c) '' !#$%&()*+,-./0123456789:;<=>?@''"
  by (simp add: less_eq_char_def)

lemma from_digit_0_table:
  "list_all (\<lambda>c. CHR ''0'' \<le> c)
     ''0123456789:;<=>?@ABCDEFGHIJKLMNOPQRSTUVWXYZ[]^_`abcdefghijklmnopqrstuvwxyz{|}~''
   \<and> list_all (\<lambda>c. \<not> CHR ''0'' \<le> c) '' !#$%&()*+,-./''"
  by (simp add: less_eq_char_def)

lemma upto_lower_z_table:
  "list_all (\<lambda>c. c \<le> CHR ''z'') '' !#$%&()*+,-./0123456789:;<=>?@ABCDEFGHIJKLMNOPQRSTUVWXYZ[]^_`abcdefghijklmnopqrstuvwxyz''
   \<and> list_all (\<lambda>c. \<not> c \<le> CHR ''z'')
        ''{|}~''"
  by (simp add: less_eq_char_def)

lemma upto_upper_Z_table:
  "list_all (\<lambda>c. c \<le> CHR ''Z'') '' !#$%&()*+,-./0123456789:;<=>?@ABCDEFGHIJKLMNOPQRSTUVWXYZ''
   \<and> list_all (\<lambda>c. \<not> c \<le> CHR ''Z'')
        ''[]^_`abcdefghijklmnopqrstuvwxyz{|}~''"
  by (simp add: less_eq_char_def)

lemma upto_digit_9_table:
  "list_all (\<lambda>c. c \<le> CHR ''9'') '' !#$%&()*+,-./0123456789''
   \<and> list_all (\<lambda>c. \<not> c \<le> CHR ''9'')
        '':;<=>?@ABCDEFGHIJKLMNOPQRSTUVWXYZ[]^_`abcdefghijklmnopqrstuvwxyz{|}~''"
  by (simp add: less_eq_char_def)

lemma upto_digit_5_table:
  "list_all (\<lambda>c. c \<le> CHR ''5'') '' !#$%&()*+,-./012345''
   \<and> list_all (\<lambda>c. \<not> c \<le> CHR ''5'')
        ''6789:;<=>?@ABCDEFGHIJKLMNOPQRSTUVWXYZ[]^_`abcdefghijklmnopqrstuvwxyz{|}~''"
  by (simp add: less_eq_char_def)

lemma upto_digit_3_table:
  "list_all (\<lambda>c. c \<le> CHR ''3'') '' !#$%&()*+,-./0123''
   \<and> list_all (\<lambda>c. \<not> c \<le> CHR ''3'')
        ''456789:;<=>?@ABCDEFGHIJKLMNOPQRSTUVWXYZ[]^_`abcdefghijklmnopqrstuvwxyz{|}~''"
  by (simp add: less_eq_char_def)

lemma word_table:
  "list_all is_word_char ''abcdefghijklmnopqrstuvwxyzABCDEFGHIJKLMNOPQRSTUVWXYZ0123456789_''
   \<and> list_all (\<lambda>c. \<not> is_word_char c) '' !#$%&()*+,-./:;<=>?@[]^`{|}~''"
  by (simp add: char_defs)

lemma space_table:
  "list_all (\<lambda>c. is_space c = (c = CHR '' ''))
     '' !#$%&()*+,-./0123456789:;<=>?@ABCDEFGHIJKLMNOPQRSTUVWXYZ[]^_`abcdefghijklmnopqrstuvwxyz{|}~''"
  by (simp add: char_defs)

lemma digit_table:
  "list_all is_digit ''0123456789''
   \<and> list_all (\<lambda>c. \<not> is_digit c)
        '' !#$%&()*+,-./:;<=>?@ABCDEFGHIJKLMNOPQRSTUVWXYZ[]^_`abcdefghijklmnopqrstuvwxyz{|}~''"
  by (simp add: char_defs)

lemma upper_table:
  "map ascii_upper
     '' !#$%&()*+,-./0123456789:;<=>?@ABCDEFGHIJKLMNOPQRSTUVWXYZ[]^_`abcdefghijklmnopqrstuvwxyz{|}~''
   = '' !#$%&()*+,-./0123456789:;<=>?@ABCDEFGHIJKLMNOPQRSTUVWXYZ[]^_`ABCDEFGHIJKLMNOPQRSTUVWXYZ{|}~''"
  by (simp add: char_defs)

lemma lower_table:
  "map ascii_lower
     '' !#$%&()*+,-./0123456789:;<=>?@ABCDEFGHIJKLMNOPQRSTUVWXYZ[]^_`abcdefghijklmnopqrstuvwxyz{|}~''
   = '' !#$%&()*+,-./0123456789:;<=>?@abcdefghijklmnopqrstuvwxyz[]^_`abcdefghijklmnopqrstuvwxyz{|}~''"
  by (simp add: char_defs)

lemma lower_char_table:
  "map lower_char
     '' !#$%&()*+,-./0123456789:;<=>?@ABCDEFGHIJKLMNOPQRSTUVWXYZ[]^_`abcdefghijklmnopqrstuvwxyz{|}~''
   = '' !#$%&()*+,-./0123456789:;<=>?@abcdefghijklmnopqrstuvwxyz[]^_`abcdefghijklmnopqrstuvwxyz{|}~''"
  by (simp add: char_defs)

lemma digit_val_table: "map digit_val ''0123456789'' = [0, 1, 2, 3, 4, 5, 6, 7, 8, 9]"
  by (simp add: digit_val_def)

lemma digit_char_table: "map digit_char [0, 1, 2, 3, 4, 5, 6, 7, 8, 9] = ''0123456789''"
  by (simp add: digit_char_def char_of_def bit_Suc_0_iff)

lemmas char_tables =
  from_lower_a_table [simplified]
  from_upper_A_table [simplified]
  from_digit_0_table [simplified]
  upto_lower_z_table [simplified]
  upto_upper_Z_table [simplified]
  upto_digit_9_table [simplified]
  upto_digit_5_table [simplified]
  upto_digit_3_table [simplified]
  word_table [simplified] space_table [simplified]
  digit_table [simplified] upper_table [simplified] lower_table [simplified]
  lower_char_table [simplified] digit_val_table [simplified] digit_char_table [simplified]

lemmas regex_eval =
  match_def test_def replace_first_def match_all_def replace_all_def capture_def capture_text_def
  chr_eq_def cls_match_def at_word_boundary_def Let_def
  toLowerCase_def trim_def parseInt_def padStart2_def startsWith_def string_of_nat.simps

lemmas pattern_defs =
  re_word_def re_standard_time_def re_next_day_def re_day_def re_month_day_def re_relative_def
  re_numeric_def weekday_alts_def month_alts_def unit_alts_def re_hashtag_def re_tag_list_def
  tag_chars_def tag_list_chars_def TIME_PATTERNS_def DATE_PATTERNS_def
  re_partial_today_def re_partial_tomorrow_def re_partial_next_week_def

lemmas eval_simps = char_tables regex_eval pattern_defs

section \<open>Date arithmetic\<close>

lemma floor_bounds:
  fixes x n :: int
  assumes "0 < n"
  shows "n * (x div n) \<le> x" and "x < n * (x div n) + n"
proof -
  have "n * (x div n) + x mod n = x" by simp
  moreover have "0 \<le> x mod n" "x mod n < n" using assms by simp_all
  ultimately show "n * (x div n) \<le> x" and "x < n * (x div n) + n" by linarith+
qed

lemma DayFromYear_above:
  fixes d z :: int
  assumes "400 * d < 146097 * z + 146097"
  shows "d < DayFromYear (1970 + z + 2)"
proof -
  define a where "a = (z + 3) div 4"
  define b where "b = (z + 71) div 100"
  define c where "c = (z + 371) div 400"
  have fa: "z + 3 < 4 * a + 4"
    unfolding a_def by (rule floor_bounds) simp
  have fb: "100 * b \<le> z + 71"
    unfolding b_def by (rule floor_bounds) simp
  have fc: "z + 371 < 400 * c + 400"
    unfolding c_def by (rule floor_bounds) simp
  have eq: "DayFromYear (1970 + z + 2) = 365 * (z + 2) + a - b + c"
    by (simp add: DayFromYear_def a_def b_def c_def algebra_simps)
  have 1: "100 * z \<le> 400 * a" using fa by linarith
  have 2: "400 * b \<le> 4 * z + 284" using fb by linarith
  have 3: "z - 28 \<le> 400 * c" using fc by linarith
  have "400 * (365 * (z + 2) + a - b + c) = 146000 * z + 292000 + 400 * a - 400 * b + 400 * c"
    by (simp add: algebra_simps)
  then have "400 * d < 400 * (365 * (z + 2) + a - b + c)"
    using assms 1 2 3 by linarith
  then have "d < 365 * (z + 2) + a - b + c" by simp
  then show ?thesis by (simp only: eq)
qed

lemma DayFromYear_below:
  fixes d z :: int
  assumes "146097 * z \<le> 400 * d"
  shows "DayFromYear (1970 + z - 1) \<le> d"
proof -
  define a where "a = z div 4"
  define b where "b = (z + 68) div 100"
  define c where "c = (z + 368) div 400"
  have fa: "4 * a \<le> z"
    unfolding a_def by (rule floor_bounds) simp
  have fb: "z + 68 < 100 * b + 100"
    unfolding b_def by (rule floor_bounds) simp
  have fc: "400 * c \<le> z + 368"
    unfolding c_def by (rule floor_bounds) simp
  have eq: "DayFromYear (1970 + z - 1) = 365 * (z - 1) + a - b + c"
    by (simp add: DayFromYear_def a_def b_def c_def algebra_simps)
  have 1: "400 * a \<le> 100 * z" using fa by linarith
  have 2: "4 * z - 124 \<le> 400 * b" using fb by linarith
  have 3: "400 * c \<le> z + 368" using fc by linarith
  have "400 * (365 * (z - 1) + a - b + c) = 146000 * z - 146000 + 400 * a - 400 * b + 400 * c"
    by (simp add: algebra_simps)
  then have "400 * (365 * (z - 1) + a - b + c) \<le> 400 * d"
    using assms 1 2 3 by linarith
  then have "365 * (z - 1) + a - b + c \<le> d" by simp
  then show ?thesis by (simp only: eq)
qed

text \<open>\<open>YearFromDay\<close> is the year of ECMA-262: the largest year that begins on or before the day.\<close>

lemma YearFromDay_correct:
  "DayFromYear (YearFromDay d) \<le> d \<and> d < DayFromYear (YearFromDay d + 1)"
proof -
  define z where "z = (d * 400) div 146097"
  have lo: "146097 * z \<le> 400 * d" and hi: "400 * d < 146097 * z + 146097"
    using floor_bounds [of 146097 "d * 400"] by (simp_all add: z_def mult.commute)
  have below: "DayFromYear (1970 + z - 1) \<le> d"
    using lo by (rule DayFromYear_below)
  have above: "d < DayFromYear (1970 + z + 2)"
    using hi by (rule DayFromYear_above)
  have y: "YearFromDay d =
             (if d < DayFromYear (1970 + z) then 1970 + z - 1
              else if DayFromYear (1970 + z + 1) \<le> d then 1970 + z + 1 else 1970 + z)"
    by (simp add: YearFromDay_def Let_def z_def)
  show ?thesis
  proof (cases "d < DayFromYear (1970 + z)")
    case True
    then show ?thesis using below y by simp
  next
    case False
    show ?thesis
    proof (cases "DayFromYear (1970 + z + 1) \<le> d")
      case True
      have "1970 + z + 1 + 1 = 1970 + z + 2" by simp
      then show ?thesis using True False above y by simp
    next
      case F2: False
      then show ?thesis using False y by simp
    qed
  qed
qed

lemma MonthFromTime_range: "0 \<le> MonthFromTime t \<and> MonthFromTime t \<le> 11"
  by (simp add: MonthFromTime_def Let_def)

lemma MakeDay_of_time:
  "MakeDay (YearFromTime t) (MonthFromTime t) dt
     = DayFromYear (YearFromTime t) + month_start (InLeapYear t) (MonthFromTime t) + dt - 1"
proof -
  have "MonthFromTime t div 12 = 0" "MonthFromTime t mod 12 = MonthFromTime t"
    using MonthFromTime_range [of t] by simp_all
  then show ?thesis by (simp add: MakeDay_def InLeapYear_def Let_def)
qed

lemma MakeDay_DateFromTime:
  "MakeDay (YearFromTime t) (MonthFromTime t) (DateFromTime t + n) = Day t + n"
  by (simp add: MakeDay_of_time DateFromTime_def DayWithinYear_def)

lemma Day_TimeWithinDay: "Day t * msPerDay + TimeWithinDay t = t"
  by (simp add: Day_def TimeWithinDay_def)

lemma Day_add_days: "Day (t + n * msPerDay) = Day t + n"
  by (simp add: Day_def msPerDay_def)

text \<open>\<^verbatim>\<open>d.setDate(d.getDate() + n)\<close> moves the local time of a date by \<open>n\<close> days.\<close>

lemma setDate_getDate:
  "setDate tz (Valid t) (getDate tz t + n) = TimeClip (UTC tz (LocalTime tz t + n * msPerDay))"
proof -
  have "MakeDate (Day (LocalTime tz t) + n) (TimeWithinDay (LocalTime tz t))
          = LocalTime tz t + n * msPerDay"
    using Day_TimeWithinDay [of "LocalTime tz t"] by (simp add: MakeDate_def algebra_simps)
  then show ?thesis by (simp add: setDate_def getDate_def Let_def MakeDay_DateFromTime)
qed

text \<open>\<^verbatim>\<open>d.setHours(0, 0, 0, 0)\<close> stores the instant that the zone gives for the start of the
  local day.\<close>

lemma atMidnight_Valid: "atMidnight tz (Valid t) = TimeClip (UTC tz (Day (LocalTime tz t) * msPerDay))"
  by (simp add: atMidnight_def setHours_def MakeDate_def MakeTime_def Let_def)

lemma atMidnight_Invalid: "atMidnight tz Invalid = Invalid"
  by (simp add: atMidnight_def setHours_def)

lemma TimeClip_Valid: "TimeClip t = Valid u \<Longrightarrow> u = t"
  by (simp add: TimeClip_def split: if_splits)

lemma TimeClip_in_range: "\<bar>t\<bar> \<le> maxTime \<Longrightarrow> TimeClip t = Valid t"
  by (simp add: TimeClip_def)

lemma atMidnight_is_midnight:
  assumes "atMidnight tz d = Valid u"
  shows "\<exists>k. u = UTC tz (k * msPerDay)"
proof (cases d)
  case Invalid
  with assms show ?thesis by (simp add: atMidnight_Invalid)
next
  case (Valid t)
  with assms have "u = UTC tz (Day (LocalTime tz t) * msPerDay)"
    by (simp add: atMidnight_Valid TimeClip_Valid)
  then show ?thesis by blast
qed

lemma local_instant_Valid: "local_instant tz x \<Longrightarrow> TimeClip (UTC tz x) = Valid (UTC tz x)"
  by (simp add: local_instant_def TimeClip_in_range)

lemma local_instant_LocalTime: "local_instant tz x \<Longrightarrow> LocalTime tz (UTC tz x) = x"
  by (simp add: local_instant_def not_skipped_def)

text \<open>The midnight of the local day of an instant, and of the day \<open>n\<close> days on.\<close>

lemma midnight_of_instant:
  assumes "local_instant tz x" "local_instant tz (Day x * msPerDay)"
  shows "atMidnight tz (TimeClip (UTC tz x)) = Valid (UTC tz (Day x * msPerDay))"
  using assms
  by (simp add: local_instant_Valid local_instant_LocalTime atMidnight_Valid)

lemma midnight_of_clock:
  assumes "local_instant tz (Day (LocalTime tz t) * msPerDay)"
  shows "atMidnight tz (Valid t) = Valid (UTC tz (Day (LocalTime tz t) * msPerDay))"
  using assms by (simp add: atMidnight_Valid local_instant_Valid)

lemma midnight_after_days:
  assumes "local_instant tz (LocalTime tz t + n * msPerDay)"
    and "local_instant tz ((Day (LocalTime tz t) + n) * msPerDay)"
  shows "atMidnight tz (setDate tz (Valid t) (getDate tz t + n))
           = Valid (UTC tz ((Day (LocalTime tz t) + n) * msPerDay))"
  using assms midnight_of_instant [of tz "LocalTime tz t + n * msPerDay"]
  by (simp add: setDate_getDate Day_add_days)

text \<open>A zone with a fixed offset skips no local time.\<close>

lemma fixed_zone_times:
  "LocalTime (fixed_zone off) t = t + off" "UTC (fixed_zone off) x = x - off"
  "not_skipped (fixed_zone off) x"
  by (simp_all add: LocalTime_def UTC_def fixed_zone_def not_skipped_def)

section \<open>Finding a word\<close>

text \<open>The search finds a match when the pattern matches at some position.\<close>

lemma search_complete:
  "rmatch icase r (last_char p pre, suf, []) \<noteq> [] \<Longrightarrow> search icase r acc p (pre @ suf) \<noteq> None"
proof (induction pre arbitrary: acc p)
  case Nil
  then show ?case by (cases suf) (auto split: list.splits)
next
  case (Cons a pre)
  show ?case
  proof (cases "rmatch icase r (p, a # pre @ suf, [])")
    case Nil
    have "search icase r (acc @ [a]) (Some a) (pre @ suf) \<noteq> None"
      using Cons.IH [of "Some a" "acc @ [a]"] Cons.prems by simp
    with Nil show ?thesis by simp
  next
    case (Cons st sts)
    then show ?thesis by (cases st) simp
  qed
qed

lemma chr_eq_refl: "chr_eq icase a a"
  by (simp add: chr_eq_def)

lemma lit_match_self: "lit_match icase w (p, w @ post, c) = [(last_char p w, post, c)]"
  by (induction w arbitrary: p) (simp_all add: chr_eq_refl)

lemma last_char_word:
  assumes "list_all is_word_char w"
    and "case p of None \<Rightarrow> w \<noteq> [] | Some a \<Rightarrow> is_word_char a"
  shows "\<exists>a. last_char p w = Some a \<and> is_word_char a"
  using assms
proof (induction w arbitrary: p)
  case Nil
  then show ?case by (cases p) simp_all
next
  case (Cons x xs)
  then show ?case using Cons.IH [of "Some x"] by simp
qed

lemma rmatch_word_here:
  assumes "w \<noteq> []" "list_all is_word_char w" "word_right post"
    and "case p of None \<Rightarrow> True | Some a \<Rightarrow> \<not> is_word_char a"
  shows "rmatch icase (re_word w) (p, w @ post, []) \<noteq> []"
proof -
  obtain x xs where w: "w = x # xs" using assms(1) by (cases w) auto
  have first: "at_word_boundary p (w @ post)"
    using assms(2,4) w by (auto simp: at_word_boundary_def split: option.splits)
  obtain a where a: "last_char p w = Some a" "is_word_char a"
    using last_char_word [of xs "Some x"] assms(2) w by auto
  have final: "at_word_boundary (last_char p w) post"
    using a assms(3) by (auto simp: at_word_boundary_def word_right_def split: list.splits)
  show ?thesis
    using first final by (simp add: re_word_def lit_match_self)
qed

lemma test_word_occurs:
  assumes "w \<noteq> []" "list_all is_word_char w" "word_left pre" "word_right post"
  shows "test icase (re_word w) (pre @ w @ post)"
proof -
  have "rmatch icase (re_word w) (last_char None pre, w @ post, []) \<noteq> []"
    using assms by (intro rmatch_word_here) (simp_all add: word_left_def)
  then show ?thesis
    unfolding test_def match_def by (rule search_complete)
qed

text \<open>Lowering the case keeps word characters and the other characters apart.\<close>

lemma is_word_char_code:
  "is_word_char c =
     (97 \<le> (of_char c :: nat) \<and> (of_char c :: nat) \<le> 122
      \<or> 65 \<le> (of_char c :: nat) \<and> (of_char c :: nat) \<le> 90
      \<or> 48 \<le> (of_char c :: nat) \<and> (of_char c :: nat) \<le> 57
      \<or> (of_char c :: nat) = 95)"
proof -
  have "(c = CHR ''_'') = ((of_char c :: nat) = of_char (CHR ''_''))"
    by (simp only: of_char_eq_iff)
  then show ?thesis
    by (simp add: is_word_char_def is_lower_def is_upper_def is_digit_def less_eq_char_def)
qed

lemma of_char_lower_char:
  "(of_char (lower_char c) :: nat) =
     (if 65 \<le> (of_char c :: nat) \<and> (of_char c :: nat) \<le> 90
         \<or> 192 \<le> (of_char c :: nat) \<and> (of_char c :: nat) \<le> 222 \<and> (of_char c :: nat) \<noteq> 215
      then of_char c + 32 else of_char c)"
proof -
  have n: "(of_char c :: nat) < 256" by simp
  then show ?thesis
    by (simp add: lower_char_def is_upper_def less_eq_char_def Let_def)
qed

lemma is_word_char_lower: "is_word_char (lower_char c) = is_word_char c"
  unfolding is_word_char_code of_char_lower_char by auto

lemma last_char_map: "last_char (map_option f p) (map f s) = map_option f (last_char p s)"
proof (induction s arbitrary: p)
  case Nil
  show ?case by simp
next
  case (Cons a s)
  show ?case using Cons.IH [of "Some a"] by simp
qed

lemma word_left_lower: "word_left (toLowerCase pre) = word_left pre"
proof -
  have "last_char None (map lower_char pre) = map_option lower_char (last_char None pre)"
    using last_char_map [of lower_char None pre] by simp
  then show ?thesis
    by (simp add: word_left_def toLowerCase_def is_word_char_lower split: option.splits)
qed

lemma word_right_lower: "word_right (toLowerCase post) = word_right post"
  by (cases post) (simp_all add: word_right_def toLowerCase_def is_word_char_lower)

lemma toLowerCase_append: "toLowerCase (a @ b) = toLowerCase a @ toLowerCase b"
  by (simp add: toLowerCase_def)

text \<open>A word that stands free in the input, in any case, is found in the lowered input.\<close>

lemma test_word_in_input:
  assumes "toLowerCase w = v" "v \<noteq> []" "list_all is_word_char v" "word_left pre" "word_right post"
  shows "test icase (re_word v) (toLowerCase (pre @ w @ post))"
proof -
  have "test icase (re_word v) (toLowerCase pre @ v @ toLowerCase post)"
    using assms by (intro test_word_occurs) (simp_all add: word_left_lower word_right_lower)
  then show ?thesis using assms(1) by (simp add: toLowerCase_append)
qed

section \<open>The documented examples\<close>

lemma parseTime_2pm: "parseTime ''Review report tomorrow at 2pm #work'' = None"
  by (simp add: parseTime_def eval_simps cong: let_weak_cong)

text \<open>
  C1. The time extractor is to read an hour with a period and no colon as a clock time,
  so that \<^verbatim>\<open>parse("Review report tomorrow at 2pm #work")\<close> has the time \<^verbatim>\<open>14:00\<close>. The only
  clock pattern of \<^verbatim>\<open>parseTime\<close> requires the colon: on this input the code returns no
  time at all.
\<close>

theorem parse_2pm_has_no_time:
  "time (parseTaskInput tz now ''Review report tomorrow at 2pm #work'') = None"
  by (simp add: parseTaskInput_def Let_def parseTime_2pm)

lemma parseTime_930: "parseTime ''today at 9:30am #urgent'' = Some ''09:30''"
  by (simp add: parseTime_def eval_simps cong: let_weak_cong)

lemma cleanInput_930: "cleanInput ''today at 9:30am #urgent'' ts = ''at''"
  by (simp add: cleanInput_def cleaned_text_def strip_patterns_def eval_simps cong: let_weak_cong)

lemma extractTags_930: "extractTags ''today at 9:30am #urgent'' = [''urgent'']"
  by (simp add: extractTags_def add_tag_def eval_simps cong: let_weak_cong)

lemma parseDate_930: "parseDate tz now ''today at 9:30am #urgent'' = Some (date_today tz now)"
  by (simp add: parseDate_def eval_simps cong: let_weak_cong)

text \<open>
  C2. \<^verbatim>\<open>parse("today at 9:30am #urgent")\<close> is to return the title \<^verbatim>\<open>New Task\<close>, today's date,
  the time \<^verbatim>\<open>09:30\<close> and the tag \<^verbatim>\<open>urgent\<close>. The date, the time and the tag are as claimed,
  but the word \<^verbatim>\<open>at\<close> survives the cleaning (the one pattern that removes it wants an hour
  right behind it, and the clock time has gone by then), so the title is \<^verbatim>\<open>at\<close> and the
  placeholder does not fire.
\<close>

theorem parse_930_title_is_at:
  "title (parseTaskInput tz now ''today at 9:30am #urgent'') = ''at''
   \<and> ParsedTask.date (parseTaskInput tz now ''today at 9:30am #urgent'') = Some (date_today tz now)
   \<and> time (parseTaskInput tz now ''today at 9:30am #urgent'') = Some ''09:30''
   \<and> tags (parseTaskInput tz now ''today at 9:30am #urgent'') = [''urgent'']"
  by (simp add: parseTaskInput_def Let_def parseTime_930 cleanInput_930 extractTags_930
      parseDate_930)

section \<open>The title cleaner on repeated fragments\<close>

lemma cleanInput_two_weekdays: "cleanInput ''Call monday tuesday'' ts = ''Call tuesday''"
  by (simp add: cleanInput_def cleaned_text_def strip_patterns_def eval_simps cong: let_weak_cong)

text \<open>
  C5. The title cleaner is to strip every occurrence of every date and time pattern; an
  input with two weekday names is to lose both. The date and time patterns are applied
  by \<^verbatim>\<open>replace\<close> without the flag \<^verbatim>\<open>g\<close>, which removes the first match of each pattern only:
  the second weekday name stays in the title.
\<close>

theorem title_keeps_second_weekday:
  "title (parseTaskInput tz now ''Call monday tuesday'') = ''Call tuesday''"
  by (simp add: parseTaskInput_def Let_def cleanInput_two_weekdays)

section \<open>The title is never empty\<close>

lemma cleaned_text_hashtag: "cleaned_text ''#work'' = []"
  by (simp add: cleaned_text_def strip_patterns_def eval_simps cong: let_weak_cong)

lemma cleaned_text_plain: "cleaned_text ''Call mom'' = ''Call mom''"
  by (simp add: cleaned_text_def strip_patterns_def eval_simps cong: let_weak_cong)

text \<open>
  C7. For every input the title that the parser returns is non-empty: when stripping the
  recognized fragments and collapsing the white space leaves nothing, the title is the
  placeholder \<^verbatim>\<open>New Task\<close>; otherwise it is the text that is left.
\<close>

theorem title_never_empty:
  "title (parseTaskInput tz now input) \<noteq> []
   \<and> (cleaned_text input = [] \<longrightarrow> title (parseTaskInput tz now input) = ''New Task'')
   \<and> (cleaned_text input \<noteq> [] \<longrightarrow> title (parseTaskInput tz now input) = cleaned_text input)"
  by (simp add: parseTaskInput_def cleanInput_def Let_def)

theorem title_never_empty_witness:
  "cleaned_text ''#work'' = [] \<and> title (parseTaskInput (fixed_zone 0) 0 ''#work'') = ''New Task''
   \<and> cleaned_text ''Call mom'' \<noteq> [] \<and> title (parseTaskInput (fixed_zone 0) 0 ''Call mom'') = ''Call mom''"
  using title_never_empty [of "fixed_zone 0" 0 "''#work''"]
    title_never_empty [of "fixed_zone 0" 0 "''Call mom''"]
  by (simp add: cleaned_text_hashtag cleaned_text_plain)

section \<open>Tag lists\<close>

lemma extractTags_semicolon: "extractTags ''tag: urgent; critical'' = [''urgent'']"
  by (simp add: extractTags_def add_tag_def eval_simps cong: let_weak_cong)

lemma extractTags_comma: "extractTags ''tag: urgent, critical'' = [''urgent'', ''critical'']"
  by (simp add: extractTags_def add_tag_def eval_simps cong: let_weak_cong)

text \<open>
  C9. Every item of a semicolon-separated list after \<^verbatim>\<open>tag:\<close> is to become a tag, as with
  commas. \<^verbatim>\<open>extractTags\<close> splits the list at commas and semicolons, but the pattern that
  finds the list admits no semicolon, so the match ends before the first one: of
  \<^verbatim>\<open>tag: urgent; critical\<close> only \<^verbatim>\<open>urgent\<close> is returned, where the comma form gives both.
\<close>

theorem semicolon_list_loses_items:
  "tags (parseTaskInput tz now ''tag: urgent; critical'') = [''urgent'']
   \<and> tags (parseTaskInput tz now ''tag: urgent, critical'') = [''urgent'', ''critical'']"
  by (simp add: parseTaskInput_def Let_def extractTags_semicolon extractTags_comma)

section \<open>The period words\<close>

lemma parseTime_night_morning: "parseTime ''night then morning'' = Some ''09:00''"
  by (simp add: parseTime_def eval_simps cong: let_weak_cong)

lemma no_clock_time_night_morning:
  "match True re_standard_time (toLowerCase ''night then morning'') = None"
  by (simp add: eval_simps cong: let_weak_cong)

text \<open>
  C8, as claimed: among several period words the one that comes first in the text wins,
  so that \<^verbatim>\<open>night ... morning\<close> gives \<^verbatim>\<open>21:00\<close>. The code gives \<^verbatim>\<open>09:00\<close>.
\<close>

theorem night_before_morning_is_0900:
  "parseTime ''night then morning'' = Some ''09:00''
   \<and> parseTime ''night then morning'' \<noteq> Some ''21:00''"
  by (simp add: parseTime_night_morning)

text \<open>
  C8, amended. When no \<^verbatim>\<open>H:MM\<close> clock time is present, the period words are tested in the
  fixed order morning, afternoon, evening, night, tonight, and the first word of that
  order that occurs anywhere in the input decides the time, wherever the other words
  stand. In particular an input in which \<^verbatim>\<open>morning\<close> stands as a word, in any case, has the
  time \<^verbatim>\<open>09:00\<close>.
\<close>

theorem period_words_fixed_priority:
  "(match True re_standard_time (toLowerCase input) = None \<longrightarrow>
      parseTime input =
        (if test True (re_word ''morning'') (toLowerCase input) then Some ''09:00''
         else if test True (re_word ''afternoon'') (toLowerCase input) then Some ''14:00''
         else if test True (re_word ''evening'') (toLowerCase input) then Some ''18:00''
         else if test True (re_word ''night'') (toLowerCase input) then Some ''21:00''
         else if test True (re_word ''tonight'') (toLowerCase input) then Some ''20:00''
         else None))
   \<and> (match True re_standard_time (toLowerCase (pre @ w @ post)) = None
        \<and> toLowerCase w = ''morning'' \<and> word_left pre \<and> word_right post \<longrightarrow>
      parseTime (pre @ w @ post) = Some ''09:00'')"
proof (intro conjI impI)
  assume "match True re_standard_time (toLowerCase input) = None"
  then show "parseTime input =
        (if test True (re_word ''morning'') (toLowerCase input) then Some ''09:00''
         else if test True (re_word ''afternoon'') (toLowerCase input) then Some ''14:00''
         else if test True (re_word ''evening'') (toLowerCase input) then Some ''18:00''
         else if test True (re_word ''night'') (toLowerCase input) then Some ''21:00''
         else if test True (re_word ''tonight'') (toLowerCase input) then Some ''20:00''
         else None)"
    by (simp add: parseTime_def Let_def)
next
  assume a: "match True re_standard_time (toLowerCase (pre @ w @ post)) = None
        \<and> toLowerCase w = ''morning'' \<and> word_left pre \<and> word_right post"
  have "list_all is_word_char ''morning''"
    by (simp add: char_tables)
  then have "test True (re_word ''morning'') (toLowerCase (pre @ w @ post))"
    using a by (intro test_word_in_input [of w]) simp_all
  then show "parseTime (pre @ w @ post) = Some ''09:00''"
    using a by (simp add: parseTime_def Let_def)
qed

theorem period_words_fixed_priority_witness:
  "match True re_standard_time (toLowerCase ''night then morning'') = None
   \<and> toLowerCase ''morning'' = ''morning'' \<and> word_left ''night then '' \<and> word_right []
   \<and> parseTime ''night then morning'' = Some ''09:00''
   \<and> test True (re_word ''morning'') (toLowerCase ''night then morning'')"
proof -
  have 1: "match True re_standard_time (toLowerCase ''night then morning'') = None"
    by (rule no_clock_time_night_morning)
  have 2: "toLowerCase ''morning'' = ''morning''"
    by (simp add: toLowerCase_def char_tables)
  have 3: "word_left ''night then ''"
    by (simp add: word_left_def char_tables)
  have 4: "word_right []"
    by (simp add: word_right_def)
  have 5: "parseTime (''night then '' @ ''morning'' @ []) = Some ''09:00''"
    using period_words_fixed_priority [of "[]" "''night then ''" "''morning''" "[]", THEN conjunct2]
      1 2 3 4 by simp
  have "parseTime ''night then morning'' =
        (if test True (re_word ''morning'') (toLowerCase ''night then morning'') then Some ''09:00''
         else if test True (re_word ''afternoon'') (toLowerCase ''night then morning'')
         then Some ''14:00''
         else if test True (re_word ''evening'') (toLowerCase ''night then morning'')
         then Some ''18:00''
         else if test True (re_word ''night'') (toLowerCase ''night then morning'')
         then Some ''21:00''
         else if test True (re_word ''tonight'') (toLowerCase ''night then morning'')
         then Some ''20:00''
         else None)"
    using period_words_fixed_priority [of "''night then morning''" "[]" "[]" "[]", THEN conjunct1]
      1 by blast
  then have 6: "test True (re_word ''morning'') (toLowerCase ''night then morning'')"
    using 5 by (auto split: if_splits)
  show ?thesis using 1 2 3 4 5 6 by simp
qed

section \<open>The priority of the date rules\<close>

lemma first_match_wins_index:
  assumes "i < length rules" "(rules ! i) x = Some y" "\<forall>j<i. (rules ! j) x = None"
  shows "first_match_wins rules x = Some y"
  using assms
proof (induction rules arbitrary: i)
  case Nil
  then show ?case by simp
next
  case (Cons rule rules)
  show ?case
  proof (cases i)
    case 0
    with Cons.prems show ?thesis by simp
  next
    case (Suc k)
    have "rule x = None"
      using Cons.prems(3) Suc by auto
    moreover have "first_match_wins rules x = Some y"
    proof (rule Cons.IH [of k])
      show "k < length rules" using Cons.prems(1) Suc by simp
      show "(rules ! k) x = Some y" using Cons.prems(2) Suc by simp
      show "\<forall>j<k. (rules ! j) x = None"
      proof (intro allI impI)
        fix j assume "j < k"
        then have "((rule # rules) ! Suc j) x = None"
          using Cons.prems(3) Suc by auto
        then show "(rules ! j) x = None" by simp
      qed
    qed
    ultimately show ?thesis by simp
  qed
qed

lemma weekday_and_numeric:
  "\<not> test False (re_word ''today'') (toLowerCase ''monday 12/25/24'')"
  "\<not> test False (re_word ''tomorrow'') (toLowerCase ''monday 12/25/24'')"
  "match True re_next_day (toLowerCase ''monday 12/25/24'') = None"
  "match True re_day (toLowerCase ''monday 12/25/24'')
     = Some \<lparr>before = [], matched = ''monday'', after = '' 12/25/24'', caps = [(1, ''monday'')]\<rparr>"
  "match False re_numeric (toLowerCase ''monday 12/25/24'') \<noteq> None"
  by (simp_all add: eval_simps cong: let_weak_cong)

text \<open>
  C3. The date extractor is first-match-wins over the fixed priority order today,
  tomorrow, next weekday, bare weekday, month name and day, in N units, numeric date:
  \<^verbatim>\<open>parseDate\<close> returns what the first rule of that list that matches resolves to, whatever
  the later rules would match. In particular an input in which \<^verbatim>\<open>today\<close> stands as a
  word, in any case, resolves to today's date, whether or not a weekday name stands in
  it as well.
\<close>

theorem parseDate_first_match_wins:
  "parseDate tz now input = first_match_wins (spec_date_rules tz now) (toLowerCase input)
   \<and> (i < length (spec_date_rules tz now)
        \<and> (spec_date_rules tz now ! i) (toLowerCase input) = Some d
        \<and> (\<forall>j<i. (spec_date_rules tz now ! j) (toLowerCase input) = None) \<longrightarrow>
        parseDate tz now input = Some d)
   \<and> (toLowerCase w = ''today'' \<and> word_left pre \<and> word_right post \<longrightarrow>
        parseDate tz now (pre @ w @ post) = Some (date_today tz now))"
proof (intro conjI impI)
  show eq: "parseDate tz now input = first_match_wins (spec_date_rules tz now) (toLowerCase input)"
    by (simp add: parseDate_def spec_date_rules_def Let_def split: option.splits)
  assume "i < length (spec_date_rules tz now)
        \<and> (spec_date_rules tz now ! i) (toLowerCase input) = Some d
        \<and> (\<forall>j<i. (spec_date_rules tz now ! j) (toLowerCase input) = None)"
  then have "first_match_wins (spec_date_rules tz now) (toLowerCase input) = Some d"
    by (intro first_match_wins_index [of i]) simp_all
  then show "parseDate tz now input = Some d"
    using eq by simp
next
  assume a: "toLowerCase w = ''today'' \<and> word_left pre \<and> word_right post"
  have "list_all is_word_char ''today''"
    by (simp add: char_tables)
  then have "test False (re_word ''today'') (toLowerCase (pre @ w @ post))"
    using a by (intro test_word_in_input [of w]) simp_all
  then show "parseDate tz now (pre @ w @ post) = Some (date_today tz now)"
    by (simp add: parseDate_def Let_def)
qed

theorem parseDate_first_match_wins_witness:
  "toLowerCase ''Today'' = ''today'' \<and> word_left ''monday or '' \<and> word_right []
   \<and> parseDate (fixed_zone 0) 0 ''monday or Today'' = Some (date_today (fixed_zone 0) 0)
   \<and> first_match_wins (spec_date_rules (fixed_zone 0) 0) (toLowerCase ''monday or Today'')
       = Some (date_today (fixed_zone 0) 0)
   \<and> (spec_date_rules (fixed_zone 0) 0 ! 3) (toLowerCase ''monday 12/25/24'')
       = Some (date_day (fixed_zone 0) 0
                 \<lparr>before = [], matched = ''monday'', after = '' 12/25/24'',
                    caps = [(1, ''monday'')]\<rparr>)
   \<and> (spec_date_rules (fixed_zone 0) 0 ! 0) (toLowerCase ''monday 12/25/24'') = None
   \<and> (spec_date_rules (fixed_zone 0) 0 ! 1) (toLowerCase ''monday 12/25/24'') = None
   \<and> (spec_date_rules (fixed_zone 0) 0 ! 2) (toLowerCase ''monday 12/25/24'') = None
   \<and> (spec_date_rules (fixed_zone 0) 0 ! 6) (toLowerCase ''monday 12/25/24'') \<noteq> None
   \<and> parseDate (fixed_zone 0) 0 ''monday 12/25/24''
       = Some (date_day (fixed_zone 0) 0
                 \<lparr>before = [], matched = ''monday'', after = '' 12/25/24'',
                    caps = [(1, ''monday'')]\<rparr>)"
proof -
  have 1: "toLowerCase ''Today'' = ''today''"
    by (simp add: toLowerCase_def char_tables)
  have 2: "word_left ''monday or ''"
    by (simp add: word_left_def char_tables)
  have 3: "word_right []"
    by (simp add: word_right_def)
  have 4: "parseDate (fixed_zone 0) 0 (''monday or '' @ ''Today'' @ []) = Some (date_today (fixed_zone 0) 0)"
    using parseDate_first_match_wins
            [of "fixed_zone 0" 0 "[]" 0 "Invalid" "''Today''" "''monday or ''" "[]",
              THEN conjunct2, THEN conjunct2]
      1 2 3 by blast
  have 5: "parseDate (fixed_zone 0) 0 ''monday or Today''
             = first_match_wins (spec_date_rules (fixed_zone 0) 0) (toLowerCase ''monday or Today'')"
    using parseDate_first_match_wins [of "fixed_zone 0" 0 "''monday or Today''", THEN conjunct1] .
  define m where
    "m = \<lparr>before = [], matched = ''monday'', after = '' 12/25/24'', caps = [(1, ''monday'')]\<rparr>"
  have 6: "(3::nat) < length (spec_date_rules (fixed_zone 0) 0)"
    by (simp add: spec_date_rules_def)
  have 7: "(spec_date_rules (fixed_zone 0) 0 ! 3) (toLowerCase ''monday 12/25/24'')
             = Some (date_day (fixed_zone 0) 0 m)"
    by (simp add: spec_date_rules_def weekday_and_numeric m_def)
  have 8: "\<forall>j<3. (spec_date_rules (fixed_zone 0) 0 ! j) (toLowerCase ''monday 12/25/24'') = None"
    by (auto simp: spec_date_rules_def weekday_and_numeric less_Suc_eq numeral_3_eq_3)
  have 9: "(spec_date_rules (fixed_zone 0) 0 ! 6) (toLowerCase ''monday 12/25/24'') \<noteq> None"
    using weekday_and_numeric(5) by (simp add: spec_date_rules_def)
  have 10: "parseDate (fixed_zone 0) 0 ''monday 12/25/24'' = Some (date_day (fixed_zone 0) 0 m)"
    using parseDate_first_match_wins
            [of "fixed_zone 0" 0 "''monday 12/25/24''" 3 "date_day (fixed_zone 0) 0 m",
              THEN conjunct2, THEN conjunct1]
      6 7 8 by blast
  have 11: "(spec_date_rules (fixed_zone 0) 0 ! 0) (toLowerCase ''monday 12/25/24'') = None"
    "(spec_date_rules (fixed_zone 0) 0 ! 1) (toLowerCase ''monday 12/25/24'') = None"
    "(spec_date_rules (fixed_zone 0) 0 ! 2) (toLowerCase ''monday 12/25/24'') = None"
    using 8 by simp_all
  show ?thesis
    using 1 2 3 4 5 7 9 10 11 unfolding m_def by simp
qed

section \<open>A weekday that is today\<close>

text \<open>What the patterns of \<^verbatim>\<open>parseDate\<close> find in a weekday name alone and behind \<^verbatim>\<open>next\<close>.\<close>

lemma weekday_alone:
  "list_all
     (\<lambda>L. toLowerCase L = L
          \<and> \<not> test False (re_word ''today'') L \<and> \<not> test False (re_word ''tomorrow'') L
          \<and> match True re_next_day L = None
          \<and> map_option (\<lambda>m. capture_text m 1) (match True re_day L) = Some L)
     weekday_alts"
  by (simp add: eval_simps cong: let_weak_cong)

lemma weekday_after_next:
  "list_all
     (\<lambda>L. \<not> test False (re_word ''today'') (''next '' @ L)
          \<and> \<not> test False (re_word ''tomorrow'') (''next '' @ L)
          \<and> map_option (\<lambda>m. capture_text m 1) (match True re_next_day (''next '' @ L)) = Some L)
     weekday_alts"
  by (simp add: eval_simps cong: let_weak_cong)

lemma DAYS_OF_WEEK_dom: "DAYS_OF_WEEK L = Some k \<Longrightarrow> L \<in> set weekday_alts"
  by (simp add: DAYS_OF_WEEK_def weekday_alts_def split: if_splits)

lemma date_day_today:
  assumes "capture_text m 1 = L" "toLowerCase L = L" "DAYS_OF_WEEK L = Some (getDay tz now)"
  shows "date_day tz now m = atMidnight tz (TimeClip (UTC tz (LocalTime tz now)))"
  using assms setDate_getDate [of tz now 0]
  by (simp add: date_day_def Let_def)

lemma date_next_day_week:
  assumes "capture_text m 1 = L" "toLowerCase L = L" "DAYS_OF_WEEK L = Some (getDay tz now)"
  shows "date_next_day tz now m
           = atMidnight tz (TimeClip (UTC tz (LocalTime tz now + 7 * msPerDay)))"
  using assms setDate_getDate [of tz now 7]
  by (simp add: date_next_day_def Let_def)

lemma toLowerCase_next: "toLowerCase (''next '' @ w) = ''next '' @ toLowerCase w"
  by (simp add: toLowerCase_def char_tables)

text \<open>
  In every zone, a name of today's weekday takes the clock's local time of day on the same
  day, and \<^verbatim>\<open>next\<close> with the name takes it seven days on, before \<^verbatim>\<open>setHours(0, 0, 0, 0)\<close>.
\<close>

lemma parseDate_weekday_today:
  assumes "DAYS_OF_WEEK (toLowerCase w) = Some (getDay tz now)"
  shows "parseDate tz now w = Some (atMidnight tz (TimeClip (UTC tz (LocalTime tz now))))"
    and "parseDate tz now (''next '' @ w)
           = Some (atMidnight tz (TimeClip (UTC tz (LocalTime tz now + 7 * msPerDay))))"
proof -
  define L where "L = toLowerCase w"
  have mem: "L \<in> set weekday_alts"
    using assms DAYS_OF_WEEK_dom L_def by blast
  have alone: "toLowerCase L = L" "\<not> test False (re_word ''today'') L"
    "\<not> test False (re_word ''tomorrow'') L" "match True re_next_day L = None"
    "map_option (\<lambda>m. capture_text m 1) (match True re_day L) = Some L"
    using weekday_alone mem by (auto simp: list_all_iff)
  then obtain m where m: "match True re_day L = Some m" "capture_text m 1 = L"
    by auto
  have "date_day tz now m = atMidnight tz (TimeClip (UTC tz (LocalTime tz now)))"
    using m(2) alone(1) assms L_def by (intro date_day_today [of m L]) simp_all
  then show "parseDate tz now w = Some (atMidnight tz (TimeClip (UTC tz (LocalTime tz now))))"
    using alone m(1) L_def by (simp add: parseDate_def Let_def)
  have behind: "\<not> test False (re_word ''today'') (''next '' @ L)"
    "\<not> test False (re_word ''tomorrow'') (''next '' @ L)"
    "map_option (\<lambda>m. capture_text m 1) (match True re_next_day (''next '' @ L)) = Some L"
    using weekday_after_next mem by (auto simp: list_all_iff)
  then obtain n where n: "match True re_next_day (''next '' @ L) = Some n" "capture_text n 1 = L"
    by auto
  have "date_next_day tz now n
          = atMidnight tz (TimeClip (UTC tz (LocalTime tz now + 7 * msPerDay)))"
    using n(2) alone(1) assms L_def by (intro date_next_day_week [of n L]) simp_all
  moreover have low: "toLowerCase (''next '' @ w) = ''next '' @ L"
    by (simp only: toLowerCase_next L_def)
  moreover have "parseDate tz now (''next '' @ w) = Some (date_next_day tz now n)"
    unfolding parseDate_def Let_def low using behind n(1) by simp
  ultimately show "parseDate tz now (''next '' @ w)
           = Some (atMidnight tz (TimeClip (UTC tz (LocalTime tz now + 7 * msPerDay))))"
    by simp
qed

text \<open>Sunday, 8 March 2026, 12:00 UTC, which is 08:00 in Havana: the clocks went from
  midnight to 01:00 that day.\<close>

lemma havana_8_march:
  "LocalTime havana_2026 1772971200000 = 1772956800000"
  "UTC havana_2026 1772956800000 = 1772971200000"
  "Day 1772956800000 = 20520" "WeekDay 1772956800000 = 0"
  "UTC havana_2026 (20520 * msPerDay) = 1772946000000"
  "LocalTime havana_2026 1772946000000 = 1772931600000"
  "HourFromTime 1772931600000 = 1" "TimeWithinDay 1772931600000 = 3600000"
  by (simp_all add: LocalTime_def UTC_def havana_2026_def Day_def WeekDay_def HourFromTime_def
      TimeWithinDay_def msPerDay_def msPerHour_def)

lemma midnight_havana_8_march:
  "atMidnight havana_2026 (Valid 1772971200000) = Valid 1772946000000"
  "atMidnight havana_2026 (TimeClip (UTC havana_2026 (LocalTime havana_2026 1772971200000)))
     = Valid 1772946000000"
  by (simp_all add: atMidnight_Valid havana_8_march TimeClip_def maxTime_def)

text \<open>
  C4, as claimed: a weekday name that is today's weekday resolves to today at local
  midnight. On a Sunday whose local midnight the clocks skip, \<^verbatim>\<open>sunday\<close> resolves to 01:00
  local time.
\<close>

theorem sunday_in_havana_is_0100:
  "DAYS_OF_WEEK (toLowerCase ''sunday'') = Some (getDay havana_2026 1772971200000)
   \<and> parseDate havana_2026 1772971200000 ''sunday'' = Some (Valid 1772946000000)
   \<and> HourFromTime (LocalTime havana_2026 1772946000000) = 1
   \<and> TimeWithinDay (LocalTime havana_2026 1772946000000) \<noteq> 0"
proof -
  have d: "DAYS_OF_WEEK (toLowerCase ''sunday'') = Some (getDay havana_2026 1772971200000)"
    by (simp add: getDay_def havana_8_march DAYS_OF_WEEK_def toLowerCase_def char_tables)
  have "parseDate havana_2026 1772971200000 ''sunday'' = Some (Valid 1772946000000)"
    using parseDate_weekday_today(1) [OF d] by (simp only: midnight_havana_8_march)
  then show ?thesis
    using d by (simp add: havana_8_march)
qed

text \<open>
  C4, amended. For a weekday name or three-letter abbreviation, in any case, that names
  today's weekday: the name alone resolves to today, and \<^verbatim>\<open>next\<close> followed by the name to
  the day seven days later, never to today; each date is the local midnight of its day,
  provided that this midnight and the clock's local time of day on that day are local
  times of representable instants, which no clock change of the time zone skips.
\<close>

theorem weekday_of_today:
  assumes "DAYS_OF_WEEK (toLowerCase w) = Some (getDay tz now)"
  shows "(local_instant tz (LocalTime tz now)
          \<and> local_instant tz (Day (LocalTime tz now) * msPerDay) \<longrightarrow>
            parseDate tz now w = Some (Valid (UTC tz (Day (LocalTime tz now) * msPerDay)))
            \<and> LocalTime tz (UTC tz (Day (LocalTime tz now) * msPerDay))
                = Day (LocalTime tz now) * msPerDay)
         \<and> (local_instant tz (LocalTime tz now + 7 * msPerDay)
             \<and> local_instant tz ((Day (LocalTime tz now) + 7) * msPerDay) \<longrightarrow>
            parseDate tz now (''next '' @ w)
              = Some (Valid (UTC tz ((Day (LocalTime tz now) + 7) * msPerDay)))
            \<and> LocalTime tz (UTC tz ((Day (LocalTime tz now) + 7) * msPerDay))
                = (Day (LocalTime tz now) + 7) * msPerDay
            \<and> (Day (LocalTime tz now) + 7) * msPerDay \<noteq> Day (LocalTime tz now) * msPerDay)"
proof (intro conjI impI)
  assume a: "local_instant tz (LocalTime tz now)
          \<and> local_instant tz (Day (LocalTime tz now) * msPerDay)"
  then show "parseDate tz now w = Some (Valid (UTC tz (Day (LocalTime tz now) * msPerDay)))"
    using parseDate_weekday_today(1) [OF assms] midnight_of_instant [of tz "LocalTime tz now"]
    by simp
  show "LocalTime tz (UTC tz (Day (LocalTime tz now) * msPerDay)) = Day (LocalTime tz now) * msPerDay"
    using a by (simp add: local_instant_LocalTime)
next
  assume a: "local_instant tz (LocalTime tz now + 7 * msPerDay)
             \<and> local_instant tz ((Day (LocalTime tz now) + 7) * msPerDay)"
  then show "parseDate tz now (''next '' @ w)
              = Some (Valid (UTC tz ((Day (LocalTime tz now) + 7) * msPerDay)))"
    using parseDate_weekday_today(2) [OF assms]
      midnight_of_instant [of tz "LocalTime tz now + 7 * msPerDay"]
    by (simp add: Day_add_days)
  show "LocalTime tz (UTC tz ((Day (LocalTime tz now) + 7) * msPerDay))
          = (Day (LocalTime tz now) + 7) * msPerDay"
    using a by (simp add: local_instant_LocalTime)
  show "(Day (LocalTime tz now) + 7) * msPerDay \<noteq> Day (LocalTime tz now) * msPerDay"
    by (simp add: msPerDay_def)
qed

text \<open>Monday, 2 November 2026, 13:54:10.123 UTC, which is 08:54 in Havana.\<close>

lemma havana_2_november:
  "LocalTime havana_2026 1793627650123 = 1793609650123"
  "Day 1793609650123 = 20759" "WeekDay 1793609650123 = 1"
  "UTC havana_2026 (20759 * msPerDay) = 1793595600000"
  "UTC havana_2026 (20760 * msPerDay) = 1793682000000"
  "UTC havana_2026 (20766 * msPerDay) = 1794200400000"
  "LocalTime havana_2026 1793595600000 = 20759 * msPerDay"
  "LocalTime havana_2026 1793682000000 = 20760 * msPerDay"
  "LocalTime havana_2026 1794200400000 = 20766 * msPerDay"
  by (simp_all add: LocalTime_def UTC_def havana_2026_def Day_def WeekDay_def msPerDay_def)

lemma havana_november_instants:
  "local_instant havana_2026 1793609650123"
  "local_instant havana_2026 (20759 * msPerDay)"
  "local_instant havana_2026 (1793609650123 + msPerDay)"
  "local_instant havana_2026 (20760 * msPerDay)"
  "local_instant havana_2026 (1793609650123 + 7 * msPerDay)"
  "local_instant havana_2026 (20766 * msPerDay)"
  by (simp_all add: local_instant_def not_skipped_def LocalTime_def UTC_def havana_2026_def
      msPerDay_def maxTime_def)

theorem weekday_of_today_witness:
  "DAYS_OF_WEEK (toLowerCase ''Monday'') = Some (getDay havana_2026 1793627650123)
   \<and> parseDate havana_2026 1793627650123 ''Monday'' = Some (Valid 1793595600000)
   \<and> LocalTime havana_2026 1793595600000 = 20759 * msPerDay
   \<and> parseDate havana_2026 1793627650123 ''next Monday'' = Some (Valid 1794200400000)
   \<and> LocalTime havana_2026 1794200400000 = 20766 * msPerDay"
proof -
  have 1: "DAYS_OF_WEEK (toLowerCase ''Monday'') = Some (getDay havana_2026 1793627650123)"
    by (simp add: getDay_def havana_2_november DAYS_OF_WEEK_def toLowerCase_def char_tables)
  have 2: "local_instant havana_2026 (LocalTime havana_2026 1793627650123)
           \<and> local_instant havana_2026 (Day (LocalTime havana_2026 1793627650123) * msPerDay)"
    using havana_november_instants(1,2) by (simp add: havana_2_november)
  have 3: "local_instant havana_2026 (LocalTime havana_2026 1793627650123 + 7 * msPerDay)
           \<and> local_instant havana_2026
                ((Day (LocalTime havana_2026 1793627650123) + 7) * msPerDay)"
    using havana_november_instants(5,6) by (simp add: havana_2_november)
  have "parseDate havana_2026 1793627650123 ''Monday''
          = Some (Valid (UTC havana_2026 (Day (LocalTime havana_2026 1793627650123) * msPerDay)))"
    using weekday_of_today [OF 1, THEN conjunct1] 2 by blast
  then have 4: "parseDate havana_2026 1793627650123 ''Monday'' = Some (Valid 1793595600000)"
    by (simp only: havana_2_november)
  have "parseDate havana_2026 1793627650123 (''next '' @ ''Monday'')
          = Some (Valid (UTC havana_2026
                   ((Day (LocalTime havana_2026 1793627650123) + 7) * msPerDay)))"
    using weekday_of_today [OF 1, THEN conjunct2] 3 by blast
  then have 5: "parseDate havana_2026 1793627650123 ''next Monday'' = Some (Valid 1794200400000)"
    by (simp add: havana_2_november)
  show ?thesis
    using 1 4 5 havana_2_november(7,9) by simp
qed

section \<open>Every date is the start of a local day\<close>

lemma time_parts:
  fixes t a b c q r1 r2 r3 r4 :: int
  assumes "t = a * 1000 + r1" "a = b * 60 + r2" "b = c * 60 + r3" "c = q * 24 + r4"
  shows "q * 86400000 + r4 * 3600000 + r3 * 60000 + r2 * 1000 + r1 = t"
  using assms by simp

lemma time_decomposition:
  "MakeDate (Day t) (MakeTime (HourFromTime t) (MinFromTime t) (SecFromTime t) (msFromTime t)) = t"
proof -
  define a where "a = t div 1000"
  define b where "b = a div 60"
  define c where "c = b div 60"
  have m: "t div 60000 = b"
    unfolding b_def a_def by (simp add: zdiv_zmult2_eq)
  have h: "t div 3600000 = c"
    unfolding c_def b_def a_def by (simp add: zdiv_zmult2_eq)
  have d: "t div 86400000 = c div 24"
    unfolding c_def b_def a_def by (simp add: zdiv_zmult2_eq)
  have "c div 24 * 86400000 + c mod 24 * 3600000 + b mod 60 * 60000 + a mod 60 * 1000
          + t mod 1000 = t"
    by (rule time_parts [of t a _ b _ c]) (simp_all add: a_def b_def c_def)
  then show ?thesis
    using m h d
    by (simp add: MakeDate_def MakeTime_def Day_def HourFromTime_def MinFromTime_def
        SecFromTime_def msFromTime_def msPerDay_def msPerHour_def msPerMinute_def
        msPerSecond_def a_def)
qed

text \<open>\<^verbatim>\<open>d.setHours(d.getHours() + n)\<close> and \<^verbatim>\<open>d.setMinutes(d.getMinutes() + n)\<close> move the
  local time by \<open>n\<close> hours and by \<open>n\<close> minutes.\<close>

lemma setHours_getHours:
  "setHours tz (Valid t) (getHours tz t + n) None None None
     = TimeClip (UTC tz (LocalTime tz t + n * msPerHour))"
proof -
  define l where "l = LocalTime tz t"
  have "MakeDate (Day l) (MakeTime (HourFromTime l + n) (MinFromTime l) (SecFromTime l) (msFromTime l))
          = MakeDate (Day l) (MakeTime (HourFromTime l) (MinFromTime l) (SecFromTime l) (msFromTime l))
            + n * msPerHour"
    by (simp add: MakeDate_def MakeTime_def algebra_simps)
  then show ?thesis
    by (simp add: setHours_def getHours_def Let_def time_decomposition l_def)
qed

lemma setMinutes_getMinutes:
  "setMinutes tz (Valid t) (getMinutes tz t + n) = TimeClip (UTC tz (LocalTime tz t + n * msPerMinute))"
proof -
  define l where "l = LocalTime tz t"
  have "MakeDate (Day l) (MakeTime (HourFromTime l) (MinFromTime l + n) (SecFromTime l) (msFromTime l))
          = MakeDate (Day l) (MakeTime (HourFromTime l) (MinFromTime l) (SecFromTime l) (msFromTime l))
            + n * msPerMinute"
    by (simp add: MakeDate_def MakeTime_def algebra_simps)
  then show ?thesis
    by (simp add: setMinutes_def getMinutes_def Let_def time_decomposition l_def)
qed

lemma midnight_parts:
  "TimeWithinDay (k * msPerDay) = 0 \<and> HourFromTime (k * msPerDay) = 0
   \<and> MinFromTime (k * msPerDay) = 0 \<and> SecFromTime (k * msPerDay) = 0
   \<and> msFromTime (k * msPerDay) = 0"
proof -
  have "k * 86400000 div 3600000 = k * 24" "k * 86400000 div 60000 = k * 1440"
    "k * 86400000 div 1000 = k * 86400"
    by simp_all
  then show ?thesis
    by (simp add: TimeWithinDay_def HourFromTime_def MinFromTime_def SecFromTime_def
        msFromTime_def msPerDay_def msPerHour_def msPerMinute_def msPerSecond_def)
qed

lemma parseDate_is_midnight:
  assumes "parseDate tz now input = Some (Valid u)"
  shows "\<exists>k. u = UTC tz (k * msPerDay)"
proof -
  obtain d where d: "atMidnight tz d = Valid u"
    using assms
    by (auto simp: parseDate_def Let_def date_today_def date_tomorrow_def date_next_day_def
        date_day_def date_month_day_def date_relative_def date_numeric_def
        split: if_splits option.splits)
  then show ?thesis by (rule atMidnight_is_midnight)
qed

lemma date_relative_hours:
  assumes "toLowerCase (capture_text m 2) = ''hour'' \<or> toLowerCase (capture_text m 2) = ''hours''"
  shows "date_relative tz now m
           = atMidnight tz (TimeClip (UTC tz (LocalTime tz now
               + int (parseInt (capture_text m 1)) * msPerHour)))"
  using assms by (auto simp: date_relative_def Let_def startsWith_def setHours_getHours)

lemma date_relative_minutes:
  assumes "toLowerCase (capture_text m 2) = ''minute'' \<or> toLowerCase (capture_text m 2) = ''minutes''"
  shows "date_relative tz now m
           = atMidnight tz (TimeClip (UTC tz (LocalTime tz now
               + int (parseInt (capture_text m 1)) * msPerMinute)))"
  using assms by (auto simp: date_relative_def Let_def startsWith_def setMinutes_getMinutes)

lemma parseDate_relative:
  "relative_rule_decides input m \<Longrightarrow> parseDate tz now input = Some (date_relative tz now m)"
  by (simp add: relative_rule_decides_def parseDate_def Let_def)

lemma relative_200000000_days:
  "relative_rule_decides ''in 200000000 days''
     \<lparr>before = [], matched = ''in 200000000 days'', after = [],
        caps = [(2, ''days''), (1, ''200000000'')]\<rparr>"
  by (simp add: relative_rule_decides_def eval_simps cong: let_weak_cong)

lemma parseDate_200000000_days:
  "parseDate (fixed_zone 0) 1793627650123 ''in 200000000 days'' = Some Invalid"
proof -
  have "date_relative (fixed_zone 0) 1793627650123
       \<lparr>before = [], matched = ''in 200000000 days'', after = [],
          caps = [(2, ''days''), (1, ''200000000'')]\<rparr> = Invalid"
    by (simp add: date_relative_def setDate_getDate atMidnight_Invalid TimeClip_def maxTime_def
        msPerDay_def fixed_zone_times eval_simps cong: let_weak_cong)
  then show ?thesis
    using parseDate_relative [OF relative_200000000_days] by simp
qed

lemma parseDate_today_havana:
  "parseDate havana_2026 1772971200000 ''today'' = Some (Valid 1772946000000)"
proof -
  have "test False (re_word ''today'') (toLowerCase ''today'')"
    by (simp add: eval_simps cong: let_weak_cong)
  then show ?thesis
    by (simp add: parseDate_def Let_def date_today_def midnight_havana_8_march)
qed

text \<open>
  C6, as claimed: whatever the input and the clock, a date that the parser returns is
  normalized to local midnight. \<^verbatim>\<open>in 200000000 days\<close> leads beyond the last representable
  time: the parser returns a date object, and it is an Invalid Date, which has no time of
  day at all. And on a day whose local midnight the clocks skip, \<^verbatim>\<open>today\<close> is 01:00 local
  time.
\<close>

theorem dates_that_are_no_local_midnight:
  "ParsedTask.date (parseTaskInput (fixed_zone 0) 1793627650123 ''in 200000000 days'')
     = Some Invalid
   \<and> ParsedTask.date (parseTaskInput havana_2026 1772971200000 ''today'')
       = Some (Valid 1772946000000)
   \<and> HourFromTime (LocalTime havana_2026 1772946000000) = 1"
  by (simp add: parseTaskInput_def Let_def parseDate_200000000_days parseDate_today_havana
      havana_8_march)

text \<open>
  C6, amended. Whatever the input, the clock and the time zone, a valid date that the parser
  returns, under any of the seven rules, is the instant that the zone gives for the start
  00:00:00.000 of a local day: its local hour, minute, second and millisecond are zero
  whenever no clock change skips that local midnight, and so always in a zone with a fixed
  offset. When the rule \<^verbatim>\<open>in N hours\<close> or \<^verbatim>\<open>in N minutes\<close> decides, the offset only selects
  the day: the date is the local midnight of the day into which the local clock time
  advanced by the offset falls, provided that this time and that midnight are local times
  of representable instants, which no clock change skips.
\<close>

theorem parsed_date_is_local_midnight:
  "(ParsedTask.date (parseTaskInput tz now input) = Some (Valid u) \<longrightarrow>
      (\<exists>k. u = UTC tz (k * msPerDay)
          \<and> (not_skipped tz (k * msPerDay) \<longrightarrow>
               LocalTime tz u = k * msPerDay \<and> TimeWithinDay (LocalTime tz u) = 0
               \<and> HourFromTime (LocalTime tz u) = 0 \<and> MinFromTime (LocalTime tz u) = 0
               \<and> SecFromTime (LocalTime tz u) = 0 \<and> msFromTime (LocalTime tz u) = 0)))
   \<and> (ParsedTask.date (parseTaskInput (fixed_zone off) now input) = Some (Valid u) \<longrightarrow>
        TimeWithinDay (LocalTime (fixed_zone off) u) = 0
        \<and> HourFromTime (LocalTime (fixed_zone off) u) = 0
        \<and> MinFromTime (LocalTime (fixed_zone off) u) = 0
        \<and> SecFromTime (LocalTime (fixed_zone off) u) = 0
        \<and> msFromTime (LocalTime (fixed_zone off) u) = 0)
   \<and> (relative_rule_decides input m
        \<and> (toLowerCase (capture_text m 2) = ''hour'' \<or> toLowerCase (capture_text m 2) = ''hours'')
        \<and> local_instant tz (LocalTime tz now + int (parseInt (capture_text m 1)) * msPerHour)
        \<and> local_instant tz
             (Day (LocalTime tz now + int (parseInt (capture_text m 1)) * msPerHour) * msPerDay)
        \<longrightarrow>
        ParsedTask.date (parseTaskInput tz now input)
          = Some (Valid (UTC tz
              (Day (LocalTime tz now + int (parseInt (capture_text m 1)) * msPerHour) * msPerDay)))
        \<and> LocalTime tz (UTC tz
              (Day (LocalTime tz now + int (parseInt (capture_text m 1)) * msPerHour) * msPerDay))
            = Day (LocalTime tz now + int (parseInt (capture_text m 1)) * msPerHour) * msPerDay)
   \<and> (relative_rule_decides input m
        \<and> (toLowerCase (capture_text m 2) = ''minute''
            \<or> toLowerCase (capture_text m 2) = ''minutes'')
        \<and> local_instant tz (LocalTime tz now + int (parseInt (capture_text m 1)) * msPerMinute)
        \<and> local_instant tz
             (Day (LocalTime tz now + int (parseInt (capture_text m 1)) * msPerMinute) * msPerDay)
        \<longrightarrow>
        ParsedTask.date (parseTaskInput tz now input)
          = Some (Valid (UTC tz
              (Day (LocalTime tz now + int (parseInt (capture_text m 1)) * msPerMinute) * msPerDay)))
        \<and> LocalTime tz (UTC tz
              (Day (LocalTime tz now + int (parseInt (capture_text m 1)) * msPerMinute) * msPerDay))
            = Day (LocalTime tz now + int (parseInt (capture_text m 1)) * msPerMinute) * msPerDay)"
proof -
  have general: "\<exists>k. v = UTC z (k * msPerDay)
          \<and> (not_skipped z (k * msPerDay) \<longrightarrow>
               LocalTime z v = k * msPerDay \<and> TimeWithinDay (LocalTime z v) = 0
               \<and> HourFromTime (LocalTime z v) = 0 \<and> MinFromTime (LocalTime z v) = 0
               \<and> SecFromTime (LocalTime z v) = 0 \<and> msFromTime (LocalTime z v) = 0)"
    if "ParsedTask.date (parseTaskInput z now input) = Some (Valid v)" for z v
  proof -
    have "parseDate z now input = Some (Valid v)"
      using that by (simp add: parseTaskInput_def Let_def)
    then obtain k where k: "v = UTC z (k * msPerDay)"
      using parseDate_is_midnight by blast
    have "LocalTime z v = k * msPerDay" if "not_skipped z (k * msPerDay)"
      using that k by (simp add: not_skipped_def)
    then show ?thesis
      using k midnight_parts [of k] by auto
  qed
  have fixed: "TimeWithinDay (LocalTime (fixed_zone off) u) = 0
        \<and> HourFromTime (LocalTime (fixed_zone off) u) = 0
        \<and> MinFromTime (LocalTime (fixed_zone off) u) = 0
        \<and> SecFromTime (LocalTime (fixed_zone off) u) = 0
        \<and> msFromTime (LocalTime (fixed_zone off) u) = 0"
    if "ParsedTask.date (parseTaskInput (fixed_zone off) now input) = Some (Valid u)"
    using general [OF that] fixed_zone_times(3) [of off] by blast
  have hours: "ParsedTask.date (parseTaskInput tz now input) = Some (Valid (UTC tz (Day x * msPerDay)))
        \<and> LocalTime tz (UTC tz (Day x * msPerDay)) = Day x * msPerDay"
    if "relative_rule_decides input m"
      and "toLowerCase (capture_text m 2) = ''hour'' \<or> toLowerCase (capture_text m 2) = ''hours''"
      and "x = LocalTime tz now + int (parseInt (capture_text m 1)) * msPerHour"
      and "local_instant tz x" and "local_instant tz (Day x * msPerDay)" for x
  proof -
    have "parseDate tz now input = Some (atMidnight tz (TimeClip (UTC tz x)))"
      using that(1,2,3) by (simp add: parseDate_relative date_relative_hours)
    then show ?thesis
      using that(4,5)
      by (simp add: parseTaskInput_def Let_def midnight_of_instant local_instant_LocalTime)
  qed
  have minutes: "ParsedTask.date (parseTaskInput tz now input) = Some (Valid (UTC tz (Day x * msPerDay)))
        \<and> LocalTime tz (UTC tz (Day x * msPerDay)) = Day x * msPerDay"
    if "relative_rule_decides input m"
      and "toLowerCase (capture_text m 2) = ''minute''
           \<or> toLowerCase (capture_text m 2) = ''minutes''"
      and "x = LocalTime tz now + int (parseInt (capture_text m 1)) * msPerMinute"
      and "local_instant tz x" and "local_instant tz (Day x * msPerDay)" for x
  proof -
    have "parseDate tz now input = Some (atMidnight tz (TimeClip (UTC tz x)))"
      using that(1,2,3) by (simp add: parseDate_relative date_relative_minutes)
    then show ?thesis
      using that(4,5)
      by (simp add: parseTaskInput_def Let_def midnight_of_instant local_instant_LocalTime)
  qed
  show ?thesis
    using general [of tz u] fixed hours minutes by blast
qed

text \<open>At 08:54 in Havana an offset of sixteen hours or of a thousand minutes reaches the
  next day.\<close>

lemma relative_16_hours:
  "relative_rule_decides ''in 16 hours''
     \<lparr>before = [], matched = ''in 16 hours'', after = [], caps = [(2, ''hours''), (1, ''16'')]\<rparr>"
  by (simp add: relative_rule_decides_def eval_simps cong: let_weak_cong)

lemma relative_1000_minutes:
  "relative_rule_decides ''Call in 1000 Minutes''
     \<lparr>before = ''call '', matched = ''in 1000 minutes'', after = [],
        caps = [(2, ''minutes''), (1, ''1000'')]\<rparr>"
  by (simp add: relative_rule_decides_def eval_simps cong: let_weak_cong)

lemma offsets_read:
  "toLowerCase (capture_text
     \<lparr>before = [], matched = ''in 16 hours'', after = [], caps = [(2, ''hours''), (1, ''16'')]\<rparr> 2)
     = ''hours''"
  "int (parseInt (capture_text
     \<lparr>before = [], matched = ''in 16 hours'', after = [], caps = [(2, ''hours''), (1, ''16'')]\<rparr> 1))
     = 16"
  "toLowerCase (capture_text
     \<lparr>before = ''call '', matched = ''in 1000 minutes'', after = [],
        caps = [(2, ''minutes''), (1, ''1000'')]\<rparr> 2)
     = ''minutes''"
  "int (parseInt (capture_text
     \<lparr>before = ''call '', matched = ''in 1000 minutes'', after = [],
        caps = [(2, ''minutes''), (1, ''1000'')]\<rparr> 1))
     = 1000"
  by (simp_all add: eval_simps cong: let_weak_cong)

lemma havana_monday_offsets:
  "Day (1793609650123 + 16 * msPerHour) = 20760" "Day (1793609650123 + 1000 * msPerMinute) = 20760"
  "local_instant havana_2026 (1793609650123 + 16 * msPerHour)"
  "local_instant havana_2026 (1793609650123 + 1000 * msPerMinute)"
  by (simp_all add: Day_def local_instant_def not_skipped_def LocalTime_def UTC_def
      havana_2026_def msPerHour_def msPerMinute_def msPerDay_def maxTime_def)

lemma parseDate_christmas_fixed:
  "parseDate (fixed_zone (- 18000000)) 1793627650123 ''12/25/24'' = Some (Valid 1735102800000)"
proof -
  have "\<not> test False (re_word ''today'') (toLowerCase ''12/25/24'')"
    "\<not> test False (re_word ''tomorrow'') (toLowerCase ''12/25/24'')"
    "match True re_next_day (toLowerCase ''12/25/24'') = None"
    "match True re_day (toLowerCase ''12/25/24'') = None"
    "match True re_month_day (toLowerCase ''12/25/24'') = None"
    "match True re_relative (toLowerCase ''12/25/24'') = None"
    "match False re_numeric (toLowerCase ''12/25/24'')
       = Some \<lparr>before = [], matched = ''12/25/24'', after = [],
                caps = [(3, ''24''), (2, ''25''), (1, ''12'')]\<rparr>"
    by (simp_all add: eval_simps cong: let_weak_cong)
  moreover have "date_numeric (fixed_zone (- 18000000))
      \<lparr>before = [], matched = ''12/25/24'', after = [],
         caps = [(3, ''24''), (2, ''25''), (1, ''12'')]\<rparr> = Valid 1735102800000"
    by (simp add: date_numeric_def newDate_def atMidnight_Valid fixed_zone_times MakeDay_def
        MakeDate_def MakeTime_def DayFromYear_def DaysInYear_def month_start_def TimeClip_def
        maxTime_def Day_def msPerDay_def eval_simps cong: let_weak_cong)
  ultimately show ?thesis
    by (simp add: parseDate_def Let_def)
qed

theorem parsed_date_is_local_midnight_witness:
  "ParsedTask.date (parseTaskInput (fixed_zone (- 18000000)) 1793627650123 ''12/25/24'')
     = Some (Valid 1735102800000)
   \<and> HourFromTime (LocalTime (fixed_zone (- 18000000)) 1735102800000) = 0
   \<and> MinFromTime (LocalTime (fixed_zone (- 18000000)) 1735102800000) = 0
   \<and> (\<exists>k. 1735102800000 = UTC (fixed_zone (- 18000000)) (k * msPerDay))
   \<and> ParsedTask.date (parseTaskInput havana_2026 1793627650123 ''in 16 hours'')
       = Some (Valid 1793682000000)
   \<and> ParsedTask.date (parseTaskInput havana_2026 1793627650123 ''Call in 1000 Minutes'')
       = Some (Valid 1793682000000)
   \<and> LocalTime havana_2026 1793682000000 = 20760 * msPerDay
   \<and> Day (LocalTime havana_2026 1793627650123) = 20759"
proof -
  define h16 where
    "h16 = \<lparr>before = [], matched = ''in 16 hours'', after = [], caps = [(2, ''hours''), (1, ''16'')]\<rparr>"
  define m1000 where
    "m1000 = \<lparr>before = ''call '', matched = ''in 1000 minutes'', after = [],
               caps = [(2, ''minutes''), (1, ''1000'')]\<rparr>"
  note r = offsets_read [folded h16_def m1000_def]
  have q: "ParsedTask.date (parseTaskInput (fixed_zone (- 18000000)) 1793627650123 ''12/25/24'')
             = Some (Valid 1735102800000)"
    by (simp add: parseTaskInput_def Let_def parseDate_christmas_fixed)
  have a: "HourFromTime (LocalTime (fixed_zone (- 18000000)) 1735102800000) = 0
           \<and> MinFromTime (LocalTime (fixed_zone (- 18000000)) 1735102800000) = 0"
    using parsed_date_is_local_midnight
            [where off = "- 18000000" and now = 1793627650123 and input = "''12/25/24''"
               and u = 1735102800000, THEN conjunct2, THEN conjunct1] q
    by blast
  have b: "\<exists>k. 1735102800000 = UTC (fixed_zone (- 18000000)) (k * msPerDay)"
    using parsed_date_is_local_midnight
            [where tz = "fixed_zone (- 18000000)" and now = 1793627650123
               and input = "''12/25/24''" and u = 1735102800000, THEN conjunct1] q
    by blast
  have hyp16: "relative_rule_decides ''in 16 hours'' h16
      \<and> (toLowerCase (capture_text h16 2) = ''hour'' \<or> toLowerCase (capture_text h16 2) = ''hours'')
      \<and> local_instant havana_2026
           (LocalTime havana_2026 1793627650123 + int (parseInt (capture_text h16 1)) * msPerHour)
      \<and> local_instant havana_2026
           (Day (LocalTime havana_2026 1793627650123
              + int (parseInt (capture_text h16 1)) * msPerHour) * msPerDay)"
    using relative_16_hours r(1) havana_monday_offsets(3) havana_november_instants(4)
    by (simp only: r(2) havana_2_november havana_monday_offsets(1) h16_def [symmetric]) simp
  have "ParsedTask.date (parseTaskInput havana_2026 1793627650123 ''in 16 hours'')
          = Some (Valid (UTC havana_2026
              (Day (LocalTime havana_2026 1793627650123
                 + int (parseInt (capture_text h16 1)) * msPerHour) * msPerDay)))"
    using parsed_date_is_local_midnight
            [where tz = havana_2026 and now = 1793627650123 and input = "''in 16 hours''"
               and m = h16, THEN conjunct2, THEN conjunct2, THEN conjunct1] hyp16
    by blast
  then have c: "ParsedTask.date (parseTaskInput havana_2026 1793627650123 ''in 16 hours'')
                  = Some (Valid 1793682000000)"
    by (simp only: r(2) havana_2_november havana_monday_offsets(1))
  have hyp1000: "relative_rule_decides ''Call in 1000 Minutes'' m1000
      \<and> (toLowerCase (capture_text m1000 2) = ''minute''
          \<or> toLowerCase (capture_text m1000 2) = ''minutes'')
      \<and> local_instant havana_2026
           (LocalTime havana_2026 1793627650123
              + int (parseInt (capture_text m1000 1)) * msPerMinute)
      \<and> local_instant havana_2026
           (Day (LocalTime havana_2026 1793627650123
              + int (parseInt (capture_text m1000 1)) * msPerMinute) * msPerDay)"
    using relative_1000_minutes r(3) havana_monday_offsets(4) havana_november_instants(4)
    by (simp only: r(4) havana_2_november havana_monday_offsets(2) m1000_def [symmetric]) simp
  have "ParsedTask.date (parseTaskInput havana_2026 1793627650123 ''Call in 1000 Minutes'')
          = Some (Valid (UTC havana_2026
              (Day (LocalTime havana_2026 1793627650123
                 + int (parseInt (capture_text m1000 1)) * msPerMinute) * msPerDay)))"
    using parsed_date_is_local_midnight
            [where tz = havana_2026 and now = 1793627650123
               and input = "''Call in 1000 Minutes''" and m = m1000,
             THEN conjunct2, THEN conjunct2, THEN conjunct2] hyp1000
    by blast
  then have d: "ParsedTask.date (parseTaskInput havana_2026 1793627650123 ''Call in 1000 Minutes'')
                  = Some (Valid 1793682000000)"
    by (simp only: r(4) havana_2_november havana_monday_offsets(2))
  show ?thesis
    using q a b c d havana_2_november(1,2,8) by simp
qed

section \<open>Suggestions for the empty input\<close>

lemma partial_patterns_match_empty:
  "test True re_partial_today (trim [])" "test True re_partial_tomorrow (trim [])"
  "test True re_partial_next_week (trim [])"
  by (simp_all add: eval_simps cong: let_weak_cong)

text \<open>In every zone the empty input gives the three suggestions, and no fallback.\<close>

lemma suggestions_empty:
  "getDateSuggestions tz now [] =
     [suggestion ''Today'' (atMidnight tz (Valid now)),
      suggestion ''Tomorrow'' (atMidnight tz (TimeClip (UTC tz (LocalTime tz now + msPerDay)))),
      suggestion ''Next Week'' (atMidnight tz (TimeClip (UTC tz (LocalTime tz now + 7 * msPerDay))))]"
  using partial_patterns_match_empty
  by (simp add: getDateSuggestions_def Let_def addDays_def setDate_getDate)

lemma havana_9_and_15_march:
  "atMidnight havana_2026 (TimeClip (UTC havana_2026 (1772956800000 + msPerDay)))
     = Valid 1773028800000"
  "atMidnight havana_2026 (TimeClip (UTC havana_2026 (1772956800000 + 7 * msPerDay)))
     = Valid 1773547200000"
  "LocalTime havana_2026 1773028800000 = 20521 * msPerDay"
  "LocalTime havana_2026 1773547200000 = 20527 * msPerDay"
  by (simp_all add: atMidnight_Valid LocalTime_def UTC_def havana_2026_def TimeClip_def
      maxTime_def Day_def msPerDay_def)

text \<open>
  C10, as claimed: for the empty input the suggestion Today is today's local midnight. On
  a day whose local midnight the clocks skip it is 01:00 local time (Tomorrow and Next
  Week are local midnights).
\<close>

theorem today_suggestion_in_havana_is_0100:
  "getDateSuggestions havana_2026 1772971200000 [] =
     [suggestion ''Today'' (Valid 1772946000000),
      suggestion ''Tomorrow'' (Valid 1773028800000),
      suggestion ''Next Week'' (Valid 1773547200000)]
   \<and> HourFromTime (LocalTime havana_2026 1772946000000) = 1
   \<and> Day (LocalTime havana_2026 1772971200000) = 20520"
  by (simp add: suggestions_empty midnight_havana_8_march havana_9_and_15_march havana_8_march)

text \<open>
  C10, amended. For the empty input \<^verbatim>\<open>getDateSuggestions\<close> returns exactly three
  suggestions, Today, Tomorrow and Next Week: each of the three partial-word patterns
  matches the empty input, and the fallback for a non-empty input does not run. Their
  dates are the local midnights of today, of the day after and of the day seven days
  later, provided that these midnights, and the clock's local time of day one and seven
  days on, are local times of representable instants, which no clock change of the time
  zone skips.
\<close>

theorem suggestions_for_empty_input:
  "map suggestion_text (getDateSuggestions tz now []) = [''Today'', ''Tomorrow'', ''Next Week'']
   \<and> test True re_partial_today [] \<and> test True re_partial_tomorrow []
   \<and> test True re_partial_next_week []
   \<and> (local_instant tz (Day (LocalTime tz now) * msPerDay)
        \<and> local_instant tz (LocalTime tz now + msPerDay)
        \<and> local_instant tz ((Day (LocalTime tz now) + 1) * msPerDay)
        \<and> local_instant tz (LocalTime tz now + 7 * msPerDay)
        \<and> local_instant tz ((Day (LocalTime tz now) + 7) * msPerDay) \<longrightarrow>
        getDateSuggestions tz now [] =
          [suggestion ''Today'' (Valid (UTC tz (Day (LocalTime tz now) * msPerDay))),
           suggestion ''Tomorrow'' (Valid (UTC tz ((Day (LocalTime tz now) + 1) * msPerDay))),
           suggestion ''Next Week'' (Valid (UTC tz ((Day (LocalTime tz now) + 7) * msPerDay)))]
        \<and> LocalTime tz (UTC tz (Day (LocalTime tz now) * msPerDay))
            = Day (LocalTime tz now) * msPerDay
        \<and> LocalTime tz (UTC tz ((Day (LocalTime tz now) + 1) * msPerDay))
            = (Day (LocalTime tz now) + 1) * msPerDay
        \<and> LocalTime tz (UTC tz ((Day (LocalTime tz now) + 7) * msPerDay))
            = (Day (LocalTime tz now) + 7) * msPerDay)"
proof (intro conjI impI)
  show "map suggestion_text (getDateSuggestions tz now []) = [''Today'', ''Tomorrow'', ''Next Week'']"
    by (simp add: suggestions_empty suggestion_def)
  show "test True re_partial_today []" "test True re_partial_tomorrow []"
    "test True re_partial_next_week []"
    using partial_patterns_match_empty by (simp_all add: trim_def)
next
  assume a: "local_instant tz (Day (LocalTime tz now) * msPerDay)
        \<and> local_instant tz (LocalTime tz now + msPerDay)
        \<and> local_instant tz ((Day (LocalTime tz now) + 1) * msPerDay)
        \<and> local_instant tz (LocalTime tz now + 7 * msPerDay)
        \<and> local_instant tz ((Day (LocalTime tz now) + 7) * msPerDay)"
  have 0: "atMidnight tz (Valid now) = Valid (UTC tz (Day (LocalTime tz now) * msPerDay))"
    using a by (simp add: midnight_of_clock)
  have 1: "atMidnight tz (TimeClip (UTC tz (LocalTime tz now + msPerDay)))
             = Valid (UTC tz ((Day (LocalTime tz now) + 1) * msPerDay))"
    using a midnight_of_instant [of tz "LocalTime tz now + msPerDay"]
      Day_add_days [of "LocalTime tz now" 1]
    by simp
  have 7: "atMidnight tz (TimeClip (UTC tz (LocalTime tz now + 7 * msPerDay)))
             = Valid (UTC tz ((Day (LocalTime tz now) + 7) * msPerDay))"
    using a midnight_of_instant [of tz "LocalTime tz now + 7 * msPerDay"]
    by (simp add: Day_add_days)
  show "getDateSuggestions tz now [] =
          [suggestion ''Today'' (Valid (UTC tz (Day (LocalTime tz now) * msPerDay))),
           suggestion ''Tomorrow'' (Valid (UTC tz ((Day (LocalTime tz now) + 1) * msPerDay))),
           suggestion ''Next Week'' (Valid (UTC tz ((Day (LocalTime tz now) + 7) * msPerDay)))]"
    by (simp only: suggestions_empty 0 1 7)
  show "LocalTime tz (UTC tz (Day (LocalTime tz now) * msPerDay)) = Day (LocalTime tz now) * msPerDay"
    "LocalTime tz (UTC tz ((Day (LocalTime tz now) + 1) * msPerDay))
       = (Day (LocalTime tz now) + 1) * msPerDay"
    "LocalTime tz (UTC tz ((Day (LocalTime tz now) + 7) * msPerDay))
       = (Day (LocalTime tz now) + 7) * msPerDay"
    using a by (simp_all add: local_instant_LocalTime)
qed

theorem suggestions_for_empty_input_witness:
  "getDateSuggestions havana_2026 1793627650123 [] =
     [suggestion ''Today'' (Valid 1793595600000),
      suggestion ''Tomorrow'' (Valid 1793682000000),
      suggestion ''Next Week'' (Valid 1794200400000)]
   \<and> LocalTime havana_2026 1793595600000 = 20759 * msPerDay
   \<and> LocalTime havana_2026 1793682000000 = 20760 * msPerDay
   \<and> LocalTime havana_2026 1794200400000 = 20766 * msPerDay
   \<and> Day (LocalTime havana_2026 1793627650123) = 20759"
proof -
  have h: "local_instant havana_2026 (Day (LocalTime havana_2026 1793627650123) * msPerDay)
        \<and> local_instant havana_2026 (LocalTime havana_2026 1793627650123 + msPerDay)
        \<and> local_instant havana_2026 ((Day (LocalTime havana_2026 1793627650123) + 1) * msPerDay)
        \<and> local_instant havana_2026 (LocalTime havana_2026 1793627650123 + 7 * msPerDay)
        \<and> local_instant havana_2026 ((Day (LocalTime havana_2026 1793627650123) + 7) * msPerDay)"
    using havana_november_instants by (simp add: havana_2_november)
  have "getDateSuggestions havana_2026 1793627650123 [] =
          [suggestion ''Today''
             (Valid (UTC havana_2026 (Day (LocalTime havana_2026 1793627650123) * msPerDay))),
           suggestion ''Tomorrow''
             (Valid (UTC havana_2026 ((Day (LocalTime havana_2026 1793627650123) + 1) * msPerDay))),
           suggestion ''Next Week''
             (Valid (UTC havana_2026 ((Day (LocalTime havana_2026 1793627650123) + 7) * msPerDay)))]"
    using suggestions_for_empty_input [where tz = havana_2026 and now = 1793627650123] h
    by blast
  then show ?thesis
    by (simp add: havana_2_november)
qed

end
